theory Spec2Isabelle
  imports Complex_Main "HOL-Library.Sublist" "HOL-Library.Char_ord" "HOL-Library.List_Lexorder"
    "HOL-Library.Log_Nat"
begin

section \<open>JavaScript strings\<close>

text \<open>
  Strings are \<^typ>\<open>string\<close>, one \<^typ>\<open>char\<close> per ASCII code unit. Letter case is the
  ASCII one: no character outside ASCII lower-cases to one of the letters the program
  compares against (\<open>income\<close>, \<open>expense\<close>, the header aliases), so this is what
  \<^verbatim>\<open>toLowerCase\<close> does on every comparison the program makes.
\<close>

definition lower_char :: "char \<Rightarrow> char" where
  "lower_char c =
     (case map_of (zip ''ABCDEFGHIJKLMNOPQRSTUVWXYZ'' ''abcdefghijklmnopqrstuvwxyz'') c of
        Some d \<Rightarrow> d
      | None \<Rightarrow> c)"

definition toLowerCase :: "string \<Rightarrow> string" where
  "toLowerCase s = map lower_char s"

text \<open>\<^verbatim>\<open>s.includes(a)\<close>: \<open>a\<close> occurs in \<open>s\<close> as a contiguous substring.\<close>

fun str_includes :: "string \<Rightarrow> string \<Rightarrow> bool" where
  "str_includes [] a = (a = [])"
| "str_includes (c # cs) a = (prefix a (c # cs) \<or> str_includes cs a)"

text \<open>\<^verbatim>\<open>trim\<close> removes white space at both ends (space, tab, LF, VT, FF, CR).\<close>

definition is_space :: "char \<Rightarrow> bool" where
  "is_space c = (c \<in> set [CHR '' '', CHR 0x09, CHR 0x0A, CHR 0x0B, CHR 0x0C, CHR 0x0D])"

definition trim :: "string \<Rightarrow> string" where
  "trim s = rev (dropWhile is_space (rev (dropWhile is_space s)))"

definition is_digit :: "char \<Rightarrow> bool" where
  "is_digit c = (c \<in> set ''0123456789'')"

definition digit_val :: "char \<Rightarrow> nat" where
  "digit_val c =
     (case map_of (zip ''0123456789'' [0, 1, 2, 3, 4, 5, 6, 7, 8, 9]) c of
        Some d \<Rightarrow> d
      | None \<Rightarrow> 0)"

text \<open>\<^verbatim>\<open>parseInt\<close> on a text of decimal digits, which is all \<^verbatim>\<open>parseDate\<close> gives it.\<close>

definition parseInt :: "string \<Rightarrow> int" where
  "parseInt s = int (foldl (\<lambda>acc c. 10 * acc + digit_val c) 0 s)"

text \<open>
  \<^verbatim>\<open>parseFloat\<close>: optional white space, an optional sign, digits, an optional fraction;
  the longest such prefix is the number, \<open>None\<close> stands for \<^verbatim>\<open>NaN\<close>. Exponents and the
  word \<^verbatim>\<open>Infinity\<close> are left out: the row parser only passes text from which every
  letter has been removed. The result is the rational the digits denote; it is rounded
  to a double where an amount enters a sum.
\<close>

definition parseFloat :: "string \<Rightarrow> rat option" where
  "parseFloat s =
     (let s0 = dropWhile is_space s;
          neg = (case s0 of c # cs \<Rightarrow> c = CHR ''-'' | [] \<Rightarrow> False);
          s1 = (case s0 of c # cs \<Rightarrow> if c = CHR ''-'' \<or> c = CHR ''+'' then cs else s0 | [] \<Rightarrow> []);
          ip = takeWhile is_digit s1;
          r1 = dropWhile is_digit s1;
          fp = (case r1 of c # cs \<Rightarrow> if c = CHR ''.'' then takeWhile is_digit cs else [] | [] \<Rightarrow> [])
      in if ip = [] \<and> fp = [] then None
         else Some ((if neg then - 1 else 1) *
                (of_int (parseInt ip) + of_int (parseInt fp) / 10 ^ length fp)))"

text \<open>\<^verbatim>\<open>String(n)\<close> for an integer \<open>n\<close>, and \<^verbatim>\<open>padStart(2, '0')\<close>.\<close>

definition digit_char :: "nat \<Rightarrow> char" where
  "digit_char d = ''0123456789'' ! (d mod 10)"

function show_nat :: "nat \<Rightarrow> string" where
  "show_nat n = (if n < 10 then [digit_char n] else show_nat (n div 10) @ [digit_char (n mod 10)])"
  by pat_completeness auto
termination
  by (relation "measure (\<lambda>n. n)") auto

declare show_nat.simps [simp del]

definition show_int :: "int \<Rightarrow> string" where
  "show_int i = (if i < 0 then CHR ''-'' # show_nat (nat (- i)) else show_nat (nat i))"

definition padStart2 :: "string \<Rightarrow> string" where
  "padStart2 s = (if length s < 2 then replicate (2 - length s) (CHR ''0'') @ s else s)"

text \<open>\<^verbatim>\<open>s.lastIndexOf(c)\<close> (\<open>-1\<close> when absent) and \<^verbatim>\<open>s.slice(start)\<close>.\<close>

definition lastIndexOf :: "string \<Rightarrow> char \<Rightarrow> int" where
  "lastIndexOf s c =
     (case filter (\<lambda>i. s ! i = c) (rev [0..<length s]) of
        [] \<Rightarrow> - 1
      | i # _ \<Rightarrow> int i)"

definition slice :: "string \<Rightarrow> int \<Rightarrow> string" where
  "slice s start =
     (if start < 0 then drop (nat (int (length s) + start)) s else drop (nat start) s)"

section \<open>Dates, numbers and the host environment\<close>

text \<open>
  A \<^verbatim>\<open>Date\<close> object is its time value in milliseconds, or invalid (time value
  \<^verbatim>\<open>NaN\<close>). What the engine and the time zone decide is a parameter of the model, the
  record \<open>host\<close>: how a text is read as a date, which instant a local year, month index
  and day denote, the local calendar year and month index of an instant, and how numbers
  and dates print.
\<close>

datatype jsdate = InvalidDate | Date int

record host =
  newDateFromString :: "string \<Rightarrow> jsdate"
  newDateFromParts :: "int \<Rightarrow> int \<Rightarrow> int \<Rightarrow> jsdate"
  getFullYear :: "int \<Rightarrow> int"
  getMonth :: "int \<Rightarrow> nat"
  numberToString :: "rat \<Rightarrow> string"
  dateToString :: "jsdate \<Rightarrow> string"

text \<open>Comparison of two dates goes through their time values; with an invalid date it is false.\<close>

fun date_le :: "jsdate \<Rightarrow> jsdate \<Rightarrow> bool" where
  "date_le (Date a) (Date b) = (a \<le> b)"
| "date_le _ _ = False"

text \<open>
  The numbers of the aggregation functions are IEEE 754 doubles: a finite value, held as
  the rational it denotes, \<^verbatim>\<open>NaN\<close> or an infinity. Negative zero is not told apart from
  zero. The result of an operation on finite values is the exact result rounded to the
  nearest double, ties to the even significand: \<open>round_double\<close>. A double has 53
  significant bits and a least exponent of \<open>-1022\<close>, and a magnitude of
  \<open>2^1024 - 2^970\<close> or more rounds to an infinity.
\<close>

datatype jsnum = Fin rat | NaN | PosInfinity | NegInfinity

definition pow2 :: "int \<Rightarrow> rat" where
  "pow2 e = (if 0 \<le> e then 2 ^ nat e else 1 / 2 ^ nat (- e))"

text \<open>For \<open>a > 0\<close>, \<open>ilog2 a\<close> is the exponent \<open>e\<close> with \<open>2^e \<le> a < 2^(e+1)\<close>.\<close>

definition ilog2 :: "rat \<Rightarrow> int" where
  "ilog2 a = (if 1 \<le> a then bitlen \<lfloor>a\<rfloor> - 1 else - bitlen (\<lceil>1 / a\<rceil> - 1))"

definition round_half_even :: "rat \<Rightarrow> int" where
  "round_half_even r =
     (let f = \<lfloor>r\<rfloor>; d = r - of_int f
      in if d < 1 / 2 then f else if 1 / 2 < d then f + 1 else if even f then f else f + 1)"

text \<open>The least magnitude that rounds to an infinity, \<open>2^1024 - 2^970\<close>, written out.\<close>

definition overflow_bound :: rat where
  "overflow_bound =
     179769313486231580793728971405303415079934132710037826936173778980444968292764750946649017977587207096330286416692887910946555547851940402630657488671505820681908902000708383676273854845817711531764475730270069855571366959622842914819860834936475292719074168444365510704342711559699508093042880177904174497792"

definition round_double :: "rat \<Rightarrow> jsnum" where
  "round_double x =
     (if overflow_bound \<le> \<bar>x\<bar> then (if 0 < x then PosInfinity else NegInfinity)
      else if x = 0 then Fin 0
      else (let e = max (ilog2 \<bar>x\<bar>) (- 1022); q = pow2 (e - 52)
            in Fin (sgn x * of_int (round_half_even (\<bar>x\<bar> / q)) * q)))"

text \<open>
  The amount of a record is a double. Its field holds the rational the double denotes; a
  rational that is no double is read as the nearest one, as a decimal literal is.
\<close>

definition number_of :: "rat \<Rightarrow> jsnum" where
  "number_of x = round_double x"

text \<open>Addition, subtraction and division of doubles, and \<^verbatim>\<open>Math.max(0, x)\<close>.\<close>

fun js_add :: "jsnum \<Rightarrow> jsnum \<Rightarrow> jsnum" where
  "js_add (Fin a) (Fin b) = round_double (a + b)"
| "js_add NaN y = NaN"
| "js_add x NaN = NaN"
| "js_add PosInfinity NegInfinity = NaN"
| "js_add NegInfinity PosInfinity = NaN"
| "js_add PosInfinity y = PosInfinity"
| "js_add x PosInfinity = PosInfinity"
| "js_add NegInfinity y = NegInfinity"
| "js_add x NegInfinity = NegInfinity"

fun js_negate :: "jsnum \<Rightarrow> jsnum" where
  "js_negate (Fin a) = Fin (- a)"
| "js_negate NaN = NaN"
| "js_negate PosInfinity = NegInfinity"
| "js_negate NegInfinity = PosInfinity"

definition js_subtract :: "jsnum \<Rightarrow> jsnum \<Rightarrow> jsnum" where
  "js_subtract x y = js_add x (js_negate y)"

fun js_divide :: "jsnum \<Rightarrow> jsnum \<Rightarrow> jsnum" where
  "js_divide (Fin a) (Fin b) =
     (if b = 0 then (if a = 0 then NaN else if 0 < a then PosInfinity else NegInfinity)
      else round_double (a / b))"
| "js_divide NaN y = NaN"
| "js_divide x NaN = NaN"
| "js_divide (Fin a) y = Fin 0"
| "js_divide PosInfinity (Fin b) = (if 0 \<le> b then PosInfinity else NegInfinity)"
| "js_divide NegInfinity (Fin b) = (if 0 \<le> b then NegInfinity else PosInfinity)"
| "js_divide x y = NaN"

fun Math_max0 :: "jsnum \<Rightarrow> jsnum" where
  "Math_max0 (Fin r) = Fin (max 0 r)"
| "Math_max0 NaN = NaN"
| "Math_max0 PosInfinity = PosInfinity"
| "Math_max0 NegInfinity = Fin 0"

text \<open>A number that is neither negative nor \<^verbatim>\<open>NaN\<close>.\<close>

fun nonneg_num :: "jsnum \<Rightarrow> bool" where
  "nonneg_num (Fin r) = (0 \<le> r)"
| "nonneg_num PosInfinity = True"
| "nonneg_num x = False"

section \<open>The raw sheet\<close>

text \<open>
  A cell is text, a number, a native date or a boolean; a row is an array that may have
  holes, and reading a hole or past the end gives \<^verbatim>\<open>undefined\<close> (\<open>None\<close>).
\<close>

datatype cell = Text string | Number rat | DateValue jsdate | Bool bool

type_synonym row = "cell option list"

definition String_of :: "host \<Rightarrow> cell \<Rightarrow> string" where
  "String_of h v =
     (case v of
        Text s \<Rightarrow> s
      | Number n \<Rightarrow> numberToString h n
      | DateValue d \<Rightarrow> dateToString h d
      | Bool b \<Rightarrow> (if b then ''true'' else ''false''))"

definition row_at :: "row \<Rightarrow> int \<Rightarrow> cell option" where
  "row_at r i = (if 0 \<le> i \<and> nat i < length r then r ! nat i else None)"

section \<open>Column mapping (excelParser.js)\<close>

datatype canonical_field = FDate | FDescription | FCategory | FAmount | FType

definition COLUMN_MAPPINGS :: "(canonical_field \<times> string list) list" where
  "COLUMN_MAPPINGS =
     [(FDate, [''date'', ''transaction date'', ''trans date'', ''posting date'']),
      (FDescription, [''description'', ''desc'', ''memo'', ''narrative'', ''details'', ''transaction'']),
      (FCategory, [''category'', ''type'', ''transaction type'', ''group'']),
      (FAmount, [''amount'', ''value'', ''sum'', ''total'', ''debit'', ''credit'']),
      (FType, [''income/expense'', ''transaction kind'', ''in/out'', ''direction''])]"

type_synonym columnMap = "canonical_field \<Rightarrow> int"

text \<open>The body of the inner loop of \<^verbatim>\<open>mapColumns\<close>, for one entry of the alias table.\<close>

definition assign_field :: "string \<Rightarrow> int \<Rightarrow> columnMap \<Rightarrow> canonical_field \<times> string list \<Rightarrow> columnMap" where
  "assign_field lowerHeader index m entry =
     (case entry of (field, aliases) \<Rightarrow>
        if list_ex (\<lambda>alias. str_includes lowerHeader alias) aliases
        then (if m field = - 1 then m(field := index) else m)
        else m)"

text \<open>The callback of \<^verbatim>\<open>headers.forEach\<close>; \<^verbatim>\<open>forEach\<close> does not visit a hole.\<close>

definition map_header :: "columnMap \<Rightarrow> nat \<times> string option \<Rightarrow> columnMap" where
  "map_header m ih =
     (case ih of
        (index, None) \<Rightarrow> m
      | (index, Some header) \<Rightarrow>
          foldl (assign_field (toLowerCase header) (int index)) m COLUMN_MAPPINGS)"

definition mapColumns :: "string option list \<Rightarrow> columnMap" where
  "mapColumns headers = foldl map_header (\<lambda>field. - 1) (enumerate 0 headers)"

text \<open>
  To state what \<^verbatim>\<open>mapColumns\<close> computes: the aliases of a field in the table, and
  whether a header (a hole matches nothing) contains one of them.
\<close>

definition aliases_of :: "canonical_field \<Rightarrow> string list" where
  "aliases_of f = (case map_of COLUMN_MAPPINGS f of Some aliases \<Rightarrow> aliases | None \<Rightarrow> [])"

definition header_matches :: "canonical_field \<Rightarrow> string option \<Rightarrow> bool" where
  "header_matches f header =
     (case header of
        None \<Rightarrow> False
      | Some s \<Rightarrow> list_ex (\<lambda>alias. str_includes (toLowerCase s) alias) (aliases_of f))"

text \<open>The index of the leftmost header that matches a field, \<open>-1\<close> when there is none.\<close>

definition first_match :: "canonical_field \<Rightarrow> (nat \<times> string option) list \<Rightarrow> int" where
  "first_match f ihs =
     (case find (\<lambda>ih. header_matches f (snd ih)) ihs of
        None \<Rightarrow> - 1
      | Some ih \<Rightarrow> int (fst ih))"

section \<open>Row parsing (excelParser.js)\<close>

text \<open>
  The four fallback patterns of \<^verbatim>\<open>parseDate\<close>: a separator and whether the year comes
  first. A pattern matches a text made of exactly three groups of digits of the right
  lengths around two separators.
\<close>

fun split_on :: "char \<Rightarrow> string \<Rightarrow> string list" where
  "split_on sep [] = [[]]"
| "split_on sep (c # cs) =
     (if c = sep then [] # split_on sep cs
      else (case split_on sep cs of p # ps \<Rightarrow> (c # p) # ps | [] \<Rightarrow> [[c]]))"

definition digits_len :: "nat \<Rightarrow> nat \<Rightarrow> string \<Rightarrow> bool" where
  "digits_len lo hi s = (lo \<le> length s \<and> length s \<le> hi \<and> list_all is_digit s)"

definition formats :: "(char \<times> bool) list" where
  "formats = [(CHR ''/'', False), (CHR ''-'', False), (CHR ''/'', True), (CHR ''-'', True)]"

definition match_format :: "char \<times> bool \<Rightarrow> string \<Rightarrow> (string \<times> string \<times> string) option" where
  "match_format format s =
     (case format of (sep, year_first) \<Rightarrow>
        (case split_on sep s of
           [a, b, c] \<Rightarrow>
             if year_first
             then (if digits_len 4 4 a \<and> digits_len 1 2 b \<and> digits_len 1 2 c
                   then Some (a, b, c) else None)
             else (if digits_len 1 2 a \<and> digits_len 1 2 b \<and> digits_len 4 4 c
                   then Some (a, b, c) else None)
         | _ \<Rightarrow> None))"

fun try_formats :: "host \<Rightarrow> string \<Rightarrow> (char \<times> bool) list \<Rightarrow> jsdate option" where
  "try_formats h dateStr [] = None"
| "try_formats h dateStr (format # rest) =
     (case match_format format dateStr of
        None \<Rightarrow> try_formats h dateStr rest
      | Some (a, b, c) \<Rightarrow>
          (let date = (if length a = 4
                       then newDateFromParts h (parseInt a) (parseInt b - 1) (parseInt c)
                       else newDateFromParts h (parseInt c) (parseInt a - 1) (parseInt b))
           in if date \<noteq> InvalidDate then Some date else try_formats h dateStr rest))"

definition parseDate :: "host \<Rightarrow> string \<Rightarrow> jsdate option" where
  "parseDate h dateStr =
     (if dateStr = [] then None
      else (let date = newDateFromString h dateStr
            in if date \<noteq> InvalidDate then Some date
               else try_formats h dateStr formats))"

record transaction =
  id_t :: "nat option"
  date :: jsdate
  description :: string
  category :: string
  amount :: rat
  type :: string

text \<open>
  \<^verbatim>\<open>parseRow\<close>, one definition for each of its commented blocks. \<open>None\<close> is the
  \<^verbatim>\<open>null\<close> of a rejected row. A parsed row has no id yet (\<open>id_t = None\<close>).
\<close>

definition rowDate :: "host \<Rightarrow> row \<Rightarrow> columnMap \<Rightarrow> jsdate option" where
  "rowDate h r columnMap =
     (case (if columnMap FDate = - 1 then None else row_at r (columnMap FDate)) of
        None \<Rightarrow> None
      | Some (DateValue d) \<Rightarrow> Some d
      | Some dateVal \<Rightarrow> parseDate h (String_of h dateVal))"

definition rowDescription :: "host \<Rightarrow> row \<Rightarrow> columnMap \<Rightarrow> string" where
  "rowDescription h r columnMap =
     (case (if columnMap FDescription = - 1 then None else row_at r (columnMap FDescription)) of
        None \<Rightarrow> []
      | Some v \<Rightarrow> trim (String_of h v))"

definition rowCategory :: "host \<Rightarrow> row \<Rightarrow> columnMap \<Rightarrow> string" where
  "rowCategory h r columnMap =
     (case (if columnMap FCategory = - 1 then None else row_at r (columnMap FCategory)) of
        None \<Rightarrow> ''Uncategorized''
      | Some v \<Rightarrow> (if trim (String_of h v) = [] then ''Uncategorized'' else trim (String_of h v)))"

definition cleaned :: "string \<Rightarrow> string" where
  "cleaned s = filter (\<lambda>c. c \<in> set ''0123456789.-+'') s"

definition rowAmount :: "host \<Rightarrow> row \<Rightarrow> columnMap \<Rightarrow> rat" where
  "rowAmount h r columnMap =
     (case (if columnMap FAmount = - 1 then None else row_at r (columnMap FAmount)) of
        None \<Rightarrow> 0
      | Some (Number n) \<Rightarrow> n
      | Some amountVal \<Rightarrow>
          (case parseFloat (cleaned (String_of h amountVal)) of
             None \<Rightarrow> 0
           | Some x \<Rightarrow> x))"

definition rowType :: "host \<Rightarrow> row \<Rightarrow> columnMap \<Rightarrow> rat \<Rightarrow> string" where
  "rowType h r columnMap amt =
     (case (if columnMap FType = - 1 then None else row_at r (columnMap FType)) of
        Some v \<Rightarrow>
          (let typeVal = toLowerCase (String_of h v)
           in if str_includes typeVal ''income'' \<or> str_includes typeVal ''in''
                 \<or> str_includes typeVal ''credit''
              then ''Income'' else ''Expense'')
      | None \<Rightarrow> (if 0 < amt then ''Income'' else ''Expense''))"

definition parseRow :: "host \<Rightarrow> row \<Rightarrow> columnMap \<Rightarrow> transaction option" where
  "parseRow h r columnMap =
     (case rowDate h r columnMap of
        None \<Rightarrow> None
      | Some d \<Rightarrow>
          (let amt = rowAmount h r columnMap
           in if amt = 0 then None
              else Some \<lparr> id_t = None,
                          date = d,
                          description = rowDescription h r columnMap,
                          category = rowCategory h r columnMap,
                          amount = \<bar>amt\<bar>,
                          type = rowType h r columnMap amt \<rparr>))"

section \<open>Ingestion (excelParser.js, FileUpload.js)\<close>

text \<open>
  The header cells as \<^verbatim>\<open>parseSheetData\<close> reads them:
  \<^verbatim>\<open>String(h || '').toLowerCase().trim()\<close>. The empty text, the number zero and
  \<^verbatim>\<open>false\<close> are falsy; \<^verbatim>\<open>map\<close> keeps a hole a hole.
\<close>

definition falsy :: "cell \<Rightarrow> bool" where
  "falsy v = (case v of Text s \<Rightarrow> s = [] | Number n \<Rightarrow> n = 0 | DateValue d \<Rightarrow> False | Bool b \<Rightarrow> b = False)"

definition header_text :: "host \<Rightarrow> cell \<Rightarrow> string" where
  "header_text h v = trim (toLowerCase (if falsy v then [] else String_of h v))"

definition parseDataRow :: "host \<Rightarrow> columnMap \<Rightarrow> nat \<times> row \<Rightarrow> transaction option" where
  "parseDataRow h columnMap ir =
     (case ir of (i, r) \<Rightarrow>
        if r = [] then None
        else (case parseRow h r columnMap of
                None \<Rightarrow> None
              | Some transaction \<Rightarrow> Some (transaction\<lparr> id_t := Some i \<rparr>)))"

text \<open>
  \<^verbatim>\<open>parseSheetData\<close> returns the transactions and the mapped columns. Without a header
  row, \<^verbatim>\<open>rawData[0].map\<close> throws a \<^verbatim>\<open>TypeError\<close> (\<open>Inl\<close>, with the engine's message).
\<close>

definition parseSheetData :: "host \<Rightarrow> row list \<Rightarrow> string + (transaction list \<times> canonical_field list)" where
  "parseSheetData h rawData =
     (case rawData of
        [] \<Rightarrow> Inl ''Cannot read properties of undefined (reading 'map')''
      | header_row # data_rows \<Rightarrow>
          (let headers = map (map_option (header_text h)) header_row;
               columnMap = mapColumns headers
           in Inr (List.map_filter (parseDataRow h columnMap) (enumerate 1 data_rows),
                   filter (\<lambda>k. columnMap k \<noteq> - 1) [FDate, FDescription, FCategory, FAmount, FType])))"

text \<open>
  A file is its name, its MIME type (\<^verbatim>\<open>file.type\<close>) and what the reader and the
  spreadsheet decoder make of its bytes: a read error, a decoding exception with its
  message, or the first sheet with its name and its rows.
\<close>

datatype file_contents = Unreadable | Undecodable string | FirstSheet string "row list"

record upload_file =
  name :: string
  mime_type :: string
  contents :: file_contents

record parse_result =
  transactions :: "transaction list"
  fileName :: string
  sheetName :: string
  totalRows :: nat
  parsedRows :: nat
  columns :: "canonical_field list"

text \<open>\<^verbatim>\<open>parseExcelFile\<close>: \<open>Inl\<close> is the message of the error the promise rejects with.\<close>

definition parseExcelFile :: "host \<Rightarrow> upload_file \<Rightarrow> string + parse_result" where
  "parseExcelFile h f =
     (case contents f of
        Unreadable \<Rightarrow> Inl ''Failed to read file''
      | Undecodable message \<Rightarrow> Inl (''Failed to parse Excel file: '' @ message)
      | FirstSheet sheet rawData \<Rightarrow>
          if length rawData < 2 then Inl ''File appears to be empty or has no data rows''
          else (case parseSheetData h rawData of
                  Inl message \<Rightarrow> Inl (''Failed to parse Excel file: '' @ message)
                | Inr result \<Rightarrow>
                    Inr \<lparr> transactions = fst result,
                          fileName = name f,
                          sheetName = sheet,
                          totalRows = length rawData - 1,
                          parsedRows = length (fst result),
                          columns = snd result \<rparr>))"

definition isValidExcelFile :: "upload_file \<Rightarrow> bool" where
  "isValidExcelFile f =
     (let validTypes = [''application/vnd.openxmlformats-officedocument.spreadsheetml.sheet'',
                        ''application/vnd.ms-excel'',
                        ''application/excel'',
                        ''application/x-excel''];
          validExtensions = [''.xlsx'', ''.xls'', ''.xlsm''];
          extension = slice (toLowerCase (name f)) (lastIndexOf (name f) (CHR ''.''))
      in mime_type f \<in> set validTypes \<or> extension \<in> set validExtensions)"

text \<open>
  \<^verbatim>\<open>handleFile\<close> is modelled by the callbacks it invokes, in order: it reads the file
  once and reports once, through \<^verbatim>\<open>onFileLoaded\<close> or through \<^verbatim>\<open>onError\<close> with the
  message of the error caught.
\<close>

datatype callback = OnFileLoaded parse_result | OnError string

definition handleFile :: "host \<Rightarrow> upload_file \<Rightarrow> callback list" where
  "handleFile h f =
     (if isValidExcelFile f
      then (case parseExcelFile h f of
              Inl message \<Rightarrow> [OnError message]
            | Inr result \<Rightarrow>
                if transactions result = []
                then [OnError ''No valid transactions found in the file. Please check the file format.'']
                else [OnFileLoaded result])
      else [OnError ''Invalid file type. Please upload an Excel file (.xlsx or .xls)''])"

text \<open>The header row of the sample template.\<close>

definition template_header :: row where
  "template_header =
     [Some (Text ''Date''), Some (Text ''Description''), Some (Text ''Category''),
      Some (Text ''Amount''), Some (Text ''Type'')]"

definition getSampleTemplateData :: "row list" where
  "getSampleTemplateData =
     [[Some (Text ''Date''), Some (Text ''Description''), Some (Text ''Category''), Some (Text ''Amount''), Some (Text ''Type'')],
      [Some (Text ''2026-01-01''), Some (Text ''Monthly Salary''), Some (Text ''Salary''), Some (Number 5000), Some (Text ''Income'')],
      [Some (Text ''2026-01-02''), Some (Text ''Grocery Store''), Some (Text ''Food & Dining''), Some (Number (- 150)), Some (Text ''Expense'')],
      [Some (Text ''2026-01-03''), Some (Text ''Electric Bill''), Some (Text ''Utilities''), Some (Number (- 120)), Some (Text ''Expense'')],
      [Some (Text ''2026-01-05''), Some (Text ''Freelance Project''), Some (Text ''Side Income''), Some (Number 800), Some (Text ''Income'')],
      [Some (Text ''2026-01-07''), Some (Text ''Restaurant Dinner''), Some (Text ''Food & Dining''), Some (Number (- 65)), Some (Text ''Expense'')],
      [Some (Text ''2026-01-10''), Some (Text ''Gas Station''), Some (Text ''Transportation''), Some (Number (- 45)), Some (Text ''Expense'')],
      [Some (Text ''2026-01-12''), Some (Text ''Online Shopping''), Some (Text ''Shopping''), Some (Number (- 200)), Some (Text ''Expense'')],
      [Some (Text ''2026-01-15''), Some (Text ''Gym Membership''), Some (Text ''Health & Fitness''), Some (Number (- 50)), Some (Text ''Expense'')]]"

section \<open>Aggregation (calculations.js)\<close>

text \<open>
  The \<^verbatim>\<open>reduce\<close> of the two totals adds doubles, from 0 and from left to right, so
  every partial sum is rounded and a sum past the largest double is \<^verbatim>\<open>Infinity\<close>.
\<close>

definition calculateTotalIncome :: "transaction list \<Rightarrow> jsnum" where
  "calculateTotalIncome ts =
     foldl (\<lambda>sum t. js_add sum (number_of \<bar>amount t\<bar>)) (Fin 0)
       (filter (\<lambda>t. type t = ''income'' \<or> type t = ''Income'') ts)"

definition calculateTotalExpenses :: "transaction list \<Rightarrow> jsnum" where
  "calculateTotalExpenses ts =
     foldl (\<lambda>sum t. js_add sum (number_of \<bar>amount t\<bar>)) (Fin 0)
       (filter (\<lambda>t. type t = ''expense'' \<or> type t = ''Expense'') ts)"

definition calculateBalance :: "transaction list \<Rightarrow> jsnum" where
  "calculateBalance ts =
     (let income = calculateTotalIncome ts;
          expenses = calculateTotalExpenses ts
      in js_subtract income expenses)"

definition calculateSavingsRate :: "transaction list \<Rightarrow> jsnum" where
  "calculateSavingsRate ts =
     (let income = calculateTotalIncome ts
      in if income = Fin 0 then Fin 0
         else (let balance = calculateBalance ts
               in Math_max0 (js_divide balance income)))"

text \<open>
  \<^verbatim>\<open>calculateByMonth\<close>. The object \<^verbatim>\<open>monthlyData\<close> is an association list in
  insertion order, which is the order of \<^verbatim>\<open>Object.values\<close> for keys of this shape.
  On month keys (digits, \<open>-\<close>, and the one key \<open>NaN-NaN\<close> of an invalid date)
  \<^verbatim>\<open>localeCompare\<close> orders as the lexicographic order on \<^typ>\<open>string\<close> does.
\<close>

record month_entry =
  income :: jsnum
  expenses :: jsnum
  month :: string






section \<open>Filtering (calculations.js, app.js)\<close>

definition filterByDateRange :: "transaction list \<Rightarrow> jsdate \<Rightarrow> jsdate \<Rightarrow> transaction list" where
  "filterByDateRange ts startDate endDate =
     filter (\<lambda>t. date_le startDate (date t) \<and> date_le (date t) endDate) ts"

definition filterByCategory :: "transaction list \<Rightarrow> string \<Rightarrow> transaction list" where
  "filterByCategory ts cat =
     (if cat = [] \<or> cat = ''all'' then ts else filter (\<lambda>t. category t = cat) ts)"

definition filterByType :: "transaction list \<Rightarrow> string \<Rightarrow> transaction list" where
  "filterByType ts ty =
     (if ty = [] \<or> ty = ''all'' then ts
      else filter (\<lambda>t. toLowerCase (type t) = toLowerCase ty) ts)"

definition searchTransactions :: "transaction list \<Rightarrow> string \<Rightarrow> transaction list" where
  "searchTransactions ts query =
     (if query = [] then ts
      else (let lowerQuery = toLowerCase query
            in filter (\<lambda>t. str_includes (toLowerCase (description t)) lowerQuery
                          \<or> str_includes (toLowerCase (category t)) lowerQuery) ts))"

text \<open>
  The filter state of \<^verbatim>\<open>app.js\<close>; \<open>categoryFilter\<close> and \<open>typeFilter\<close> are its fields
  \<^verbatim>\<open>category\<close> and \<^verbatim>\<open>type\<close>. The empty text is falsy.
\<close>

record filters =
  search :: string
  categoryFilter :: string
  typeFilter :: string
  dateFrom :: string
  dateTo :: string

record app_state =
  allTransactions :: "transaction list"
  filteredTransactions :: "transaction list"
  activeFilters :: filters

definition initialFilters :: filters where
  "initialFilters = \<lparr> search = [], categoryFilter = ''all'', typeFilter = ''all'', dateFrom = [], dateTo = [] \<rparr>"

definition applyFilters :: "host \<Rightarrow> app_state \<Rightarrow> app_state" where
  "applyFilters h state =
     (let fs = activeFilters state;
          filtered0 = allTransactions state;
          filtered1 = (if search fs \<noteq> [] then searchTransactions filtered0 (search fs) else filtered0);
          filtered2 = (if categoryFilter fs \<noteq> [] \<and> categoryFilter fs \<noteq> ''all''
                       then filterByCategory filtered1 (categoryFilter fs) else filtered1);
          filtered3 = (if typeFilter fs \<noteq> [] \<and> typeFilter fs \<noteq> ''all''
                       then filterByType filtered2 (typeFilter fs) else filtered2);
          filtered4 = (if dateFrom fs \<noteq> [] \<or> dateTo fs \<noteq> []
                       then (let startDate = (if dateFrom fs \<noteq> [] then newDateFromString h (dateFrom fs) else Date 0);
                                 endDate = (if dateTo fs \<noteq> [] then newDateFromString h (dateTo fs) else Date 8640000000000000)
                             in filterByDateRange filtered3 startDate endDate)
                       else filtered3)
      in state\<lparr> filteredTransactions := filtered4 \<rparr>)"

section \<open>A host for examples: UTC, ISO dates only\<close>

text \<open>
  The examples below run on one concrete host: the time zone is UTC, and a text is a
  date only in the form \<^verbatim>\<open>YYYY-MM-DD\<close> with a day that exists. Days are counted from
  1970-01-01 in the proleptic Gregorian calendar.
\<close>

definition days_from_civil :: "int \<Rightarrow> int \<Rightarrow> int \<Rightarrow> int" where
  "days_from_civil y m d =
     (let y1 = (if m \<le> 2 then y - 1 else y);
          era = y1 div 400;
          yoe = y1 - era * 400;
          doy = (153 * (if 2 < m then m - 3 else m + 9) + 2) div 5 + d - 1;
          doe = yoe * 365 + yoe div 4 - yoe div 100 + doy
      in era * 146097 + doe - 719468)"

definition civil_from_days :: "int \<Rightarrow> int \<times> int \<times> int" where
  "civil_from_days z0 =
     (let z = z0 + 719468;
          era = z div 146097;
          doe = z - era * 146097;
          yoe = (doe - doe div 1460 + doe div 36524 - doe div 146096) div 365;
          doy = doe - (365 * yoe + yoe div 4 - yoe div 100);
          mp = (5 * doy + 2) div 153;
          d = doy - (153 * mp + 2) div 5 + 1;
          m = (if mp < 10 then mp + 3 else mp - 9)
      in (yoe + era * 400 + (if m \<le> 2 then 1 else 0), m, d))"

definition ms_per_day :: int where
  "ms_per_day = 86400000"

definition days_in_month :: "int \<Rightarrow> int \<Rightarrow> int" where
  "days_in_month y m = days_from_civil (if m = 12 then y + 1 else y) (if m = 12 then 1 else m + 1) 1
                       - days_from_civil y m 1"

definition utc_newDateFromString :: "string \<Rightarrow> jsdate" where
  "utc_newDateFromString s =
     (case split_on (CHR ''-'') s of
        [a, b, c] \<Rightarrow>
          if digits_len 4 4 a \<and> digits_len 2 2 b \<and> digits_len 2 2 c
             \<and> 1 \<le> parseInt b \<and> parseInt b \<le> 12
             \<and> 1 \<le> parseInt c \<and> parseInt c \<le> days_in_month (parseInt a) (parseInt b)
          then Date (ms_per_day * days_from_civil (parseInt a) (parseInt b) (parseInt c))
          else InvalidDate
      | _ \<Rightarrow> InvalidDate)"

definition utc_newDateFromParts :: "int \<Rightarrow> int \<Rightarrow> int \<Rightarrow> jsdate" where
  "utc_newDateFromParts y m d =
     (let y1 = (if 0 \<le> y \<and> y \<le> 99 then 1900 + y else y)
      in Date (ms_per_day * (days_from_civil (y1 + m div 12) (m mod 12 + 1) 1 + (d - 1))))"

definition utc_getFullYear :: "int \<Rightarrow> int" where
  "utc_getFullYear t = fst (civil_from_days (t div ms_per_day))"

definition utc_getMonth :: "int \<Rightarrow> nat" where
  "utc_getMonth t = nat (fst (snd (civil_from_days (t div ms_per_day))) - 1)"

fun frac_digits :: "nat \<Rightarrow> rat \<Rightarrow> string" where
  "frac_digits 0 r = []"
| "frac_digits (Suc k) r =
     (if r = 0 then []
      else digit_char (nat \<lfloor>10 * r\<rfloor>) # frac_digits k (10 * r - of_int \<lfloor>10 * r\<rfloor>))"

definition utc_numberToString :: "rat \<Rightarrow> string" where
  "utc_numberToString r =
     (if r = of_int \<lfloor>r\<rfloor> then show_int \<lfloor>r\<rfloor>
      else (if r < 0 then ''-'' else []) @ show_int \<lfloor>\<bar>r\<bar>\<rfloor> @ ''.''
           @ frac_digits 17 (\<bar>r\<bar> - of_int \<lfloor>\<bar>r\<bar>\<rfloor>))"

definition utc_dateToString :: "jsdate \<Rightarrow> string" where
  "utc_dateToString d =
     (case d of
        InvalidDate \<Rightarrow> ''Invalid Date''
      | Date t \<Rightarrow>
          (let days = t div ms_per_day;
               ms = t mod ms_per_day;
               ymd = civil_from_days days
           in [''Thu'', ''Fri'', ''Sat'', ''Sun'', ''Mon'', ''Tue'', ''Wed''] ! nat (days mod 7) @ '' ''
              @ [''Jan'', ''Feb'', ''Mar'', ''Apr'', ''May'', ''Jun'',
                 ''Jul'', ''Aug'', ''Sep'', ''Oct'', ''Nov'', ''Dec''] ! nat (fst (snd ymd) - 1) @ '' ''
              @ padStart2 (show_int (snd (snd ymd))) @ '' '' @ show_int (fst ymd) @ '' ''
              @ padStart2 (show_int (ms div 3600000)) @ '':''
              @ padStart2 (show_int (ms div 60000 mod 60)) @ '':''
              @ padStart2 (show_int (ms div 1000 mod 60))
              @ '' GMT+0000 (Coordinated Universal Time)''))"

definition utc_host :: host where
  "utc_host = \<lparr> newDateFromString = utc_newDateFromString,
                newDateFromParts = utc_newDateFromParts,
                getFullYear = utc_getFullYear,
                getMonth = utc_getMonth,
                numberToString = utc_numberToString,
                dateToString = utc_dateToString \<rparr>"

section \<open>Rounding to a double\<close>

lemma overflow_bound_eq: "overflow_bound = 2 ^ 1024 - 2 ^ 970"
  by (simp add: overflow_bound_def)

lemma overflow_bound_pos: "0 < overflow_bound"
  by (simp add: overflow_bound_def)

lemma pow2_pos: "0 < pow2 e"
  by (simp add: pow2_def)

text \<open>The exponent that \<open>ilog2\<close> gives is the binary exponent of its argument.\<close>

lemma ilog2_bounds:
  assumes "0 < a"
  shows "pow2 (ilog2 a) \<le> a \<and> a < 2 * pow2 (ilog2 a)"
proof (cases "1 \<le> a")
  case True
  let ?n = "\<lfloor>a\<rfloor>"
  from True have n: "0 < ?n" by linarith
  from bitlen_bounds [OF n] have lo: "2 ^ nat (bitlen ?n - 1) \<le> ?n" and hi: "?n < 2 ^ nat (bitlen ?n)"
    by simp_all
  from n have b1: "1 \<le> bitlen ?n"
    by (simp add: bitlen_alt_def)
  have "rat_of_int (2 ^ nat (bitlen ?n - 1)) \<le> rat_of_int ?n"
    using lo by (simp only: of_int_le_iff)
  also have "\<dots> \<le> a" by simp
  finally have 1: "(2::rat) ^ nat (bitlen ?n - 1) \<le> a" by simp
  from hi have "?n + 1 \<le> 2 ^ nat (bitlen ?n)" by simp
  then have "rat_of_int (?n + 1) \<le> rat_of_int (2 ^ nat (bitlen ?n))"
    by (simp only: of_int_le_iff)
  moreover have "a < rat_of_int (?n + 1)" by simp linarith
  ultimately have "a < (2::rat) ^ nat (bitlen ?n)" by simp
  moreover have "nat (bitlen ?n) = Suc (nat (bitlen ?n - 1))"
    using b1 by simp
  ultimately have 2: "a < 2 * (2::rat) ^ nat (bitlen ?n - 1)" by simp
  from True b1 1 2 show ?thesis
    by (simp add: ilog2_def pow2_def)
next
  case False
  let ?k = "\<lceil>1 / a\<rceil> - 1"
  from False assms have "1 < 1 / a" by (simp add: field_simps)
  then have k: "0 < ?k" by linarith
  from bitlen_bounds [OF k] have lo: "2 ^ nat (bitlen ?k - 1) \<le> ?k" and hi: "?k < 2 ^ nat (bitlen ?k)"
    by simp_all
  from k have b1: "1 \<le> bitlen ?k"
    by (simp add: bitlen_alt_def)
  from hi have "?k + 1 \<le> 2 ^ nat (bitlen ?k)" by simp
  then have "rat_of_int (?k + 1) \<le> rat_of_int (2 ^ nat (bitlen ?k))"
    by (simp only: of_int_le_iff)
  moreover have "1 / a \<le> rat_of_int (?k + 1)"
    using le_of_int_ceiling [of "1 / a"] by simp
  ultimately have "1 / a \<le> rat_of_int (2 ^ nat (bitlen ?k))"
    by (rule order_trans [rotated])
  then have "1 / a \<le> (2::rat) ^ nat (bitlen ?k)" by simp
  with assms have 1: "1 / (2::rat) ^ nat (bitlen ?k) \<le> a"
    by (simp add: field_simps)
  have "rat_of_int (2 ^ nat (bitlen ?k - 1)) \<le> rat_of_int ?k"
    using lo by (simp only: of_int_le_iff)
  moreover have "rat_of_int ?k < 1 / a" by simp linarith
  ultimately have "(2::rat) ^ nat (bitlen ?k - 1) < 1 / a" by simp
  with assms have "a < 1 / (2::rat) ^ nat (bitlen ?k - 1)"
    by (simp add: field_simps)
  moreover have "nat (bitlen ?k) = Suc (nat (bitlen ?k - 1))"
    using b1 by simp
  ultimately have 2: "a < 2 * (1 / (2::rat) ^ nat (bitlen ?k))" by simp
  from False b1 1 2 show ?thesis
    by (simp add: ilog2_def pow2_def)
qed

lemma ilog2_pow2: "ilog2 (2 ^ n) = int n"
proof -
  have "bitlen (1 * 2 ^ n) = bitlen 1 + int n"
    by (rule bitlen_pow2) simp
  moreover have "bitlen 1 = 1"
    by (simp add: bitlen_alt_def)
  moreover have "\<lfloor>(2::rat) ^ n\<rfloor> = 2 ^ n"
    by simp
  ultimately show ?thesis
    by (simp add: ilog2_def)
qed

lemma round_half_even_nonneg: "0 \<le> r \<Longrightarrow> 0 \<le> round_half_even r"
  by (auto simp: round_half_even_def Let_def)

lemma round_half_even_int: "round_half_even (of_int k) = k"
  by (simp add: round_half_even_def)

lemma round_double_not_NaN: "round_double x \<noteq> NaN"
  by (simp add: round_double_def Let_def)

lemma round_double_zero: "round_double 0 = Fin 0"
  by (simp add: round_double_def overflow_bound_def)

lemma round_double_nonneg: "0 \<le> x \<Longrightarrow> nonneg_num (round_double x)"
proof -
  assume x: "0 \<le> x"
  have "0 \<le> of_int (round_half_even (\<bar>x\<bar> / pow2 e)) * pow2 e" for e
    using round_half_even_nonneg [of "\<bar>x\<bar> / pow2 e"] pow2_pos [of e]
    by (simp add: less_imp_le)
  with x overflow_bound_pos show ?thesis
    by (auto simp: round_double_def Let_def sgn_if)
qed

lemma round_double_overflow: "overflow_bound \<le> x \<Longrightarrow> round_double x = PosInfinity"
proof -
  assume x: "overflow_bound \<le> x"
  with overflow_bound_pos have "0 < x" by linarith
  with x show ?thesis by (simp add: round_double_def)
qed

text \<open>
  Sample roundings: \<open>2^53 + 1\<close> lies half way between two doubles and goes to the even
  one, \<open>2^53 + 3\<close> goes up, a tenth is not a double, 5000 is, and so is \<open>2^1023\<close>.
\<close>

lemma round_double_examples:
  "round_double (2 ^ 53 + 1) = Fin (2 ^ 53)"
  "round_double (2 ^ 53 + 3) = Fin (2 ^ 53 + 4)"
  "round_double (1 / 10) = Fin (3602879701896397 / 36028797018963968)"
  "round_double 5000 = Fin 5000"
  by code_simp+

lemma round_double_2_1023: "round_double (2 ^ 1023) = Fin (2 ^ 1023)"
proof -
  have b: "\<not> overflow_bound \<le> \<bar>2 ^ 1023 :: rat\<bar>"
    by (simp add: overflow_bound_def)
  have q: "pow2 (1023 - 52) = 2 ^ 971"
    by (simp add: pow2_def)
  have d: "\<bar>2 ^ 1023 :: rat\<bar> / 2 ^ 971 = of_int (2 ^ 52)"
    by simp
  have m: "of_int (2 ^ 52) * (2::rat) ^ 971 = 2 ^ 1023"
    by simp
  have "round_double (2 ^ 1023) =
        Fin (sgn (2 ^ 1023) * of_int (round_half_even (\<bar>2 ^ 1023\<bar> / pow2 (1023 - 52))) * pow2 (1023 - 52))"
    using b ilog2_pow2 [of 1023] by (simp add: round_double_def Let_def)
  also have "\<dots> = Fin (2 ^ 1023)"
    unfolding q d round_half_even_int using m by simp
  finally show ?thesis .
qed

section \<open>Totals, balance and savings rate\<close>

lemma js_add_nonneg: "nonneg_num a \<Longrightarrow> nonneg_num b \<Longrightarrow> nonneg_num (js_add a b)"
  by (cases a; cases b) (simp_all add: round_double_nonneg)

lemma number_of_abs_nonneg: "nonneg_num (number_of \<bar>x\<bar>)"
  by (simp add: number_of_def round_double_nonneg)

lemma foldl_total_nonneg:
  "nonneg_num s \<Longrightarrow> nonneg_num (foldl (\<lambda>sum t. js_add sum (number_of \<bar>amount t\<bar>)) s ts)"
  by (induction ts arbitrary: s) (simp_all add: js_add_nonneg number_of_abs_nonneg)

lemma totals_nonneg:
  "nonneg_num (calculateTotalIncome ts)" "nonneg_num (calculateTotalExpenses ts)"
  by (simp_all add: calculateTotalIncome_def calculateTotalExpenses_def foldl_total_nonneg)

lemma nonneg_num_cases: "nonneg_num x \<Longrightarrow> (\<exists>r. x = Fin r \<and> 0 \<le> r) \<or> x = PosInfinity"
  by (cases x) simp_all


text \<open>
  Claim C7. For every record list the balance is the total income minus the total
  expenses, and the balance of the empty list is 0.
\<close>

theorem balance_is_difference:
  "calculateBalance ts = js_subtract (calculateTotalIncome ts) (calculateTotalExpenses ts)
   \<and> calculateBalance [] = Fin 0"
  by (simp add: calculateBalance_def calculateTotalIncome_def calculateTotalExpenses_def
        js_subtract_def round_double_zero)

lemma Math_max0_nonneg: "x \<noteq> NaN \<Longrightarrow> nonneg_num (Math_max0 x)"
  by (cases x) simp_all

lemma js_divide_finite_divisor: "x \<noteq> NaN \<Longrightarrow> i \<noteq> 0 \<Longrightarrow> js_divide x (Fin i) \<noteq> NaN"
  by (cases x) (simp_all add: round_double_not_NaN)

lemma js_subtract_from_finite: "nonneg_num y \<Longrightarrow> js_subtract (Fin i) y \<noteq> NaN"
  by (cases y) (simp_all add: js_subtract_def round_double_not_NaN)

lemma js_subtract_from_infinity: "nonneg_num y \<Longrightarrow> js_subtract PosInfinity y = PosInfinity \<or> js_subtract PosInfinity y = NaN"
  by (cases y) (simp_all add: js_subtract_def)

lemma savingsRate_finite_income:
  assumes "calculateTotalIncome ts = Fin i" "i \<noteq> 0"
  shows "calculateSavingsRate ts = Math_max0 (js_divide (calculateBalance ts) (Fin i))"
    and "nonneg_num (calculateSavingsRate ts)"
proof -
  show r: "calculateSavingsRate ts = Math_max0 (js_divide (calculateBalance ts) (Fin i))"
    using assms by (simp add: calculateSavingsRate_def Let_def)
  have "calculateBalance ts \<noteq> NaN"
    using assms(1) totals_nonneg(2) [of ts]
    by (simp add: calculateBalance_def Let_def js_subtract_from_finite)
  then have "js_divide (calculateBalance ts) (Fin i) \<noteq> NaN"
    using assms(2) by (rule js_divide_finite_divisor)
  then show "nonneg_num (calculateSavingsRate ts)"
    unfolding r by (rule Math_max0_nonneg)
qed

lemma savingsRate_infinite_income:
  assumes "calculateTotalIncome ts = PosInfinity"
  shows "calculateSavingsRate ts = NaN"
proof -
  have "calculateBalance ts = PosInfinity \<or> calculateBalance ts = NaN"
    using assms totals_nonneg(2) [of ts]
    by (simp add: calculateBalance_def Let_def js_subtract_from_infinity)
  with assms show ?thesis
    by (auto simp: calculateSavingsRate_def Let_def)
qed

lemma savingsRate_zero_income: "calculateTotalIncome ts = Fin 0 \<Longrightarrow> calculateSavingsRate ts = Fin 0"
  by (simp add: calculateSavingsRate_def)

text \<open>
  Claim C6, as the code has it. The total income is never negative and never
  \<^verbatim>\<open>NaN\<close>. The savings rate of the empty list is 0, and the rate is 0 whenever the
  total income is 0. When the total income is a finite number other than 0, the rate is
  \<^verbatim>\<open>Math.max(0, balance / totalIncome)\<close>, a division by a divisor that is not zero, and
  it is neither \<^verbatim>\<open>NaN\<close> nor negative. When the incomes add up past the largest double,
  the total income is \<^verbatim>\<open>Infinity\<close> and the rate is \<^verbatim>\<open>NaN\<close>.
\<close>

theorem savingsRate_safe_when_income_finite:
  "nonneg_num (calculateTotalIncome ts)
   \<and> calculateSavingsRate [] = Fin 0
   \<and> (calculateTotalIncome ts = Fin 0 \<longrightarrow> calculateSavingsRate ts = Fin 0)
   \<and> (calculateTotalIncome ts = Fin i \<and> i \<noteq> 0 \<longrightarrow>
        calculateSavingsRate ts = Math_max0 (js_divide (calculateBalance ts) (Fin i))
        \<and> calculateSavingsRate ts \<noteq> NaN
        \<and> nonneg_num (calculateSavingsRate ts))
   \<and> (calculateTotalIncome ts = PosInfinity \<longrightarrow> calculateSavingsRate ts = NaN)"
proof -
  have e: "calculateSavingsRate [] = Fin 0"
    by (simp add: calculateSavingsRate_def calculateTotalIncome_def)
  have f: "calculateTotalIncome ts = Fin i \<and> i \<noteq> 0 \<longrightarrow>
        calculateSavingsRate ts = Math_max0 (js_divide (calculateBalance ts) (Fin i))
        \<and> calculateSavingsRate ts \<noteq> NaN
        \<and> nonneg_num (calculateSavingsRate ts)"
    using savingsRate_finite_income [of ts i] by auto
  from e f totals_nonneg(1) [of ts] savingsRate_zero_income [of ts] savingsRate_infinite_income [of ts]
  show ?thesis by blast
qed

lemma total_of_two:
  "foldl (\<lambda>sum t. js_add sum (number_of \<bar>amount t\<bar>)) (Fin 0) [t1, t2]
   = js_add (js_add (Fin 0) (number_of \<bar>amount t1\<bar>)) (number_of \<bar>amount t2\<bar>)"
  by simp

lemma income_overflows:
  "calculateTotalIncome
     [\<lparr> id_t = Some 1, date = Date 1767225600000, description = ''Sale of shares'',
         category = ''Investments'', amount = 2 ^ 1023, type = ''Income'' \<rparr>,
      \<lparr> id_t = Some 2, date = Date 1767312000000, description = ''Sale of shares'',
         category = ''Investments'', amount = 2 ^ 1023, type = ''Income'' \<rparr>] = PosInfinity"
proof -
  let ?t1 = "\<lparr> id_t = Some 1, date = Date 1767225600000, description = ''Sale of shares'',
         category = ''Investments'', amount = 2 ^ 1023, type = ''Income'' \<rparr>"
  let ?t2 = "\<lparr> id_t = Some 2, date = Date 1767312000000, description = ''Sale of shares'',
         category = ''Investments'', amount = 2 ^ 1023, type = ''Income'' \<rparr>"
  have f: "filter (\<lambda>t. type t = ''income'' \<or> type t = ''Income'') [?t1, ?t2] = [?t1, ?t2]"
    by simp
  have a: "number_of \<bar>amount ?t1\<bar> = Fin (2 ^ 1023)" "number_of \<bar>amount ?t2\<bar> = Fin (2 ^ 1023)"
    using round_double_2_1023 by (simp_all add: number_of_def)
  have s1: "js_add (Fin 0) (Fin (2 ^ 1023)) = Fin (2 ^ 1023)"
    using round_double_2_1023 by simp
  have "overflow_bound \<le> 2 ^ 1023 + 2 ^ 1023"
    by (simp add: overflow_bound_def)
  then have "round_double (2 ^ 1023 + 2 ^ 1023) = PosInfinity"
    by (rule round_double_overflow)
  then have s2: "js_add (Fin (2 ^ 1023)) (Fin (2 ^ 1023)) = PosInfinity"
    by (simp only: js_add.simps)
  show ?thesis
    unfolding calculateTotalIncome_def f total_of_two a s1 s2 ..
qed

text \<open>
  An income of 1000 and an expense of 400: the rate is the double nearest to 0.6. An
  expense alone: the rate is 0. Two incomes of \<open>2^1023\<close>: the rate is \<^verbatim>\<open>NaN\<close>.
\<close>

theorem savingsRate_safe_when_income_finite_witness:
  "calculateSavingsRate
     [\<lparr> id_t = Some 1, date = Date 1767225600000, description = ''Pay'', category = ''Salary'',
         amount = 1000, type = ''Income'' \<rparr>,
      \<lparr> id_t = Some 2, date = Date 1767312000000, description = ''Rent'', category = ''Housing'',
         amount = 400, type = ''Expense'' \<rparr>] = Fin (5404319552844595 / 9007199254740992)
   \<and> calculateSavingsRate
     [\<lparr> id_t = Some 2, date = Date 1767312000000, description = ''Rent'', category = ''Housing'',
         amount = 400, type = ''Expense'' \<rparr>] = Fin 0
   \<and> calculateSavingsRate
     [\<lparr> id_t = Some 1, date = Date 1767225600000, description = ''Sale of shares'',
         category = ''Investments'', amount = 2 ^ 1023, type = ''Income'' \<rparr>,
      \<lparr> id_t = Some 2, date = Date 1767312000000, description = ''Sale of shares'',
         category = ''Investments'', amount = 2 ^ 1023, type = ''Income'' \<rparr>] = NaN"
proof -
  let ?pay = "\<lparr> id_t = Some 1, date = Date 1767225600000, description = ''Pay'', category = ''Salary'',
         amount = 1000, type = ''Income'' \<rparr>"
  let ?rent = "\<lparr> id_t = Some 2, date = Date 1767312000000, description = ''Rent'', category = ''Housing'',
         amount = 400, type = ''Expense'' \<rparr>"
  let ?big = "[\<lparr> id_t = Some 1, date = Date 1767225600000, description = ''Sale of shares'',
         category = ''Investments'', amount = 2 ^ 1023, type = ''Income'' \<rparr>,
      \<lparr> id_t = Some 2, date = Date 1767312000000, description = ''Sale of shares'',
         category = ''Investments'', amount = 2 ^ 1023, type = ''Income'' \<rparr>]"
  have i: "calculateTotalIncome [?pay, ?rent] = Fin 1000"
    by code_simp
  have b: "Math_max0 (js_divide (calculateBalance [?pay, ?rent]) (Fin 1000))
           = Fin (5404319552844595 / 9007199254740992)"
    by code_simp
  have 1: "calculateSavingsRate [?pay, ?rent] = Fin (5404319552844595 / 9007199254740992)"
    using savingsRate_safe_when_income_finite [of "[?pay, ?rent]" 1000] i b by simp
  have "calculateTotalIncome [?rent] = Fin 0"
    by code_simp
  then have 2: "calculateSavingsRate [?rent] = Fin 0"
    using savingsRate_safe_when_income_finite [of "[?rent]"] by blast
  have 3: "calculateSavingsRate ?big = NaN"
    using savingsRate_safe_when_income_finite [of ?big] income_overflows by blast
  from 1 2 3 show ?thesis by blast
qed

text \<open>
  Against claim C6 as stated: two incomes of \<open>2^1023\<close>, each a double, add up to
  \<^verbatim>\<open>Infinity\<close>, which is not 0, and the savings rate is \<^verbatim>\<open>NaN\<close>.
\<close>

theorem savingsRate_overflow_counterexample:
  "calculateTotalIncome
     [\<lparr> id_t = Some 1, date = Date 1767225600000, description = ''Sale of shares'',
         category = ''Investments'', amount = 2 ^ 1023, type = ''Income'' \<rparr>,
      \<lparr> id_t = Some 2, date = Date 1767312000000, description = ''Sale of shares'',
         category = ''Investments'', amount = 2 ^ 1023, type = ''Income'' \<rparr>] = PosInfinity
   \<and> calculateSavingsRate
     [\<lparr> id_t = Some 1, date = Date 1767225600000, description = ''Sale of shares'',
         category = ''Investments'', amount = 2 ^ 1023, type = ''Income'' \<rparr>,
      \<lparr> id_t = Some 2, date = Date 1767312000000, description = ''Sale of shares'',
         category = ''Investments'', amount = 2 ^ 1023, type = ''Income'' \<rparr>] = NaN"
  using income_overflows savingsRate_infinite_income [OF income_overflows] by (rule conjI)

section \<open>Column mapping\<close>

lemma assign_field_apply:
  "assign_field l i m (g, as) f =
     (if f = g \<and> list_ex (\<lambda>alias. str_includes l alias) as \<and> m g = - 1 then i else m f)"
  by (simp add: assign_field_def)

lemma aliases_of_simps:
  "aliases_of FDate = [''date'', ''transaction date'', ''trans date'', ''posting date'']"
  "aliases_of FDescription = [''description'', ''desc'', ''memo'', ''narrative'', ''details'', ''transaction'']"
  "aliases_of FCategory = [''category'', ''type'', ''transaction type'', ''group'']"
  "aliases_of FAmount = [''amount'', ''value'', ''sum'', ''total'', ''debit'', ''credit'']"
  "aliases_of FType = [''income/expense'', ''transaction kind'', ''in/out'', ''direction'']"
  by (simp_all add: aliases_of_def COLUMN_MAPPINGS_def)

text \<open>One pass over the alias table: every field that matches and is still unmapped gets the index.\<close>

lemma assign_all_fields:
  "foldl (assign_field l i) m COLUMN_MAPPINGS f =
     (if list_ex (\<lambda>alias. str_includes l alias) (aliases_of f) \<and> m f = - 1 then i else m f)"
  unfolding COLUMN_MAPPINGS_def foldl_Cons foldl_Nil assign_field_apply
  by (cases f) (simp_all only: aliases_of_simps canonical_field.simps if_True if_False simp_thms)

lemma map_header_field:
  "map_header m (n, header) f = (if header_matches f header \<and> m f = - 1 then int n else m f)"
  by (cases header) (simp_all add: map_header_def header_matches_def assign_all_fields)

lemma foldl_map_header:
  "foldl map_header m (enumerate n headers) f =
     (if m f \<noteq> - 1 then m f else first_match f (enumerate n headers))"
proof (induction headers arbitrary: m n)
  case Nil
  then show ?case by (simp add: first_match_def)
next
  case (Cons header headers)
  have "foldl map_header m (enumerate n (header # headers)) f
        = foldl map_header (map_header m (n, header)) (enumerate (Suc n) headers) f"
    by simp
  also have "\<dots> = (if map_header m (n, header) f \<noteq> - 1 then map_header m (n, header) f
                    else first_match f (enumerate (Suc n) headers))"
    by (rule Cons.IH)
  also have "\<dots> = (if m f \<noteq> - 1 then m f else first_match f (enumerate n (header # headers)))"
    by (simp add: map_header_field first_match_def)
  finally show ?case .
qed

lemma mapColumns_first_match: "mapColumns headers f = first_match f (enumerate 0 headers)"
  by (simp add: mapColumns_def foldl_map_header)

lemma first_match_iff:
  "(first_match f (enumerate 0 headers) = int i) =
     (i < length headers \<and> header_matches f (headers ! i)
      \<and> (\<forall>j<i. \<not> header_matches f (headers ! j)))"
proof (cases "find (\<lambda>ih. header_matches f (snd ih)) (enumerate 0 headers)")
  case None
  then have "\<forall>k<length headers. \<not> header_matches f (headers ! k)"
    by (auto simp: find_None_iff in_set_conv_nth nth_enumerate_eq)
  with None show ?thesis by (auto simp: first_match_def)
next
  case (Some ih)
  then obtain k where k: "k < length headers" "ih = (k, headers ! k)"
      "header_matches f (headers ! k)" "\<forall>j<k. \<not> header_matches f (headers ! j)"
    by (auto simp: find_Some_iff nth_enumerate_eq)
  have "(k = i) = (i < length headers \<and> header_matches f (headers ! i)
                   \<and> (\<forall>j<i. \<not> header_matches f (headers ! j)))"
    using k by (metis nat_neq_iff)
  with Some k show ?thesis by (simp add: first_match_def)
qed

lemma first_match_none_iff:
  "(first_match f (enumerate 0 headers) = - 1) =
     (\<forall>i<length headers. \<not> header_matches f (headers ! i))"
proof (cases "find (\<lambda>ih. header_matches f (snd ih)) (enumerate 0 headers)")
  case None
  then have "\<forall>k<length headers. \<not> header_matches f (headers ! k)"
    by (auto simp: find_None_iff in_set_conv_nth nth_enumerate_eq)
  with None show ?thesis by (auto simp: first_match_def)
next
  case (Some ih)
  then obtain k where k: "k < length headers" "ih = (k, headers ! k)"
      "header_matches f (headers ! k)"
    by (auto simp: find_Some_iff nth_enumerate_eq)
  with Some show ?thesis by (auto simp: first_match_def)
qed

text \<open>
  Claim C1, as the code has it. The loop over the alias table has no exit after a match,
  so each canonical field is mapped on its own: a field gets the index of the leftmost
  header that contains one of its aliases, whatever other fields that header also
  matches, and stays \<open>-1\<close> when no header matches it. A header that matches the aliases
  of several fields is therefore recorded under every one of them that no earlier header
  matched, not only under the first in the order date, description, category, amount,
  type.
\<close>

theorem mapColumns_field_gets_first_matching_header:
  "(mapColumns headers f = int i) =
     (i < length headers \<and> header_matches f (headers ! i)
      \<and> (\<forall>j<i. \<not> header_matches f (headers ! j)))
   \<and> (mapColumns headers f = - 1) = (\<forall>i<length headers. \<not> header_matches f (headers ! i))"
  by (simp only: mapColumns_first_match first_match_iff first_match_none_iff simp_thms)

text \<open>
  The header \<open>transaction date\<close> before \<open>amount\<close>: it is the first header that matches
  the date field and the first that matches the description field, and column 0 is
  recorded under both. Neither header matches the type field, which stays unmapped.
\<close>

theorem mapColumns_field_gets_first_matching_header_witness:
  "header_matches FDate (Some ''transaction date'')
   \<and> header_matches FDescription (Some ''transaction date'')
   \<and> mapColumns [Some ''transaction date'', Some ''amount''] FDate = int 0
   \<and> mapColumns [Some ''transaction date'', Some ''amount''] FDescription = int 0
   \<and> mapColumns [Some ''transaction date'', Some ''amount''] FType = - 1"
proof -
  have d: "header_matches FDate (Some ''transaction date'')"
    by code_simp
  have e: "header_matches FDescription (Some ''transaction date'')"
    by code_simp
  have n: "\<not> header_matches FType (Some ''transaction date'')" "\<not> header_matches FType (Some ''amount'')"
    by code_simp+
  from d have 1: "mapColumns [Some ''transaction date'', Some ''amount''] FDate = int 0"
    using mapColumns_field_gets_first_matching_header
            [of "[Some ''transaction date'', Some ''amount'']" FDate 0]
    by simp
  from e have 2: "mapColumns [Some ''transaction date'', Some ''amount''] FDescription = int 0"
    using mapColumns_field_gets_first_matching_header
            [of "[Some ''transaction date'', Some ''amount'']" FDescription 0]
    by simp
  from n have "\<forall>i<length [Some ''transaction date'', Some ''amount''].
                 \<not> header_matches FType ([Some ''transaction date'', Some ''amount''] ! i)"
    by (simp add: less_Suc_eq numeral_2_eq_2)
  then have 3: "mapColumns [Some ''transaction date'', Some ''amount''] FType = - 1"
    using mapColumns_field_gets_first_matching_header
            [of "[Some ''transaction date'', Some ''amount'']" FType]
    by blast
  from 1 2 3 d e show ?thesis by simp
qed

text \<open>
  Against claim C1 as stated: the single header \<open>transaction date\<close> contains the alias
  \<open>date\<close> of the date field and the alias \<open>transaction\<close> of the description field, and
  its index 0 is recorded under the date field and under the description field.
\<close>

theorem mapColumns_header_under_two_fields_counterexample:
  "header_matches FDate (Some ''transaction date'')
   \<and> header_matches FDescription (Some ''transaction date'')
   \<and> mapColumns [Some ''transaction date''] FDate = 0
   \<and> mapColumns [Some ''transaction date''] FDescription = 0"
  by code_simp

section \<open>Row parsing\<close>

lemma parseRow_Some:
  assumes "parseRow h r cm = Some t"
  shows "rowAmount h r cm \<noteq> 0" and "amount t = \<bar>rowAmount h r cm\<bar>"
    and "type t = rowType h r cm (rowAmount h r cm)"
    and "rowDate h r cm = Some (date t)"
    and "description t = rowDescription h r cm" and "category t = rowCategory h r cm"
  using assms by (auto simp: parseRow_def Let_def split: option.splits if_splits)

lemma parseRow_zero_amount: "rowAmount h r cm = 0 \<Longrightarrow> parseRow h r cm = None"
  by (simp add: parseRow_def Let_def split: option.splits)

lemma takeWhile_no_digit: "\<not> list_ex is_digit s \<Longrightarrow> takeWhile is_digit s = []"
  by (cases s) (simp_all)

lemma no_digit_cleaned: "\<not> list_ex is_digit s \<Longrightarrow> \<not> list_ex is_digit (cleaned s)"
  by (auto simp: cleaned_def list_ex_iff)

lemma no_digit_dropWhile: "\<not> list_ex is_digit s \<Longrightarrow> \<not> list_ex is_digit (dropWhile P s)"
  by (auto simp: list_ex_iff dest: set_dropWhileD)

lemma no_digit_strip_sign:
  "\<not> list_ex is_digit xs \<Longrightarrow>
   \<not> list_ex is_digit (case xs of c # cs \<Rightarrow> if c = CHR ''-'' \<or> c = CHR ''+'' then cs else xs | [] \<Rightarrow> [])"
  by (cases xs) auto

lemma no_digit_fraction:
  "\<not> list_ex is_digit xs \<Longrightarrow>
   (case xs of c # cs \<Rightarrow> if c = CHR ''.'' then takeWhile is_digit cs else [] | [] \<Rightarrow> []) = []"
  by (cases xs) (auto intro: takeWhile_no_digit)

lemma parseFloat_no_digit:
  assumes "\<not> list_ex is_digit s"
  shows "parseFloat s = None"
proof -
  let ?s0 = "dropWhile is_space s"
  let ?s1 = "(case ?s0 of c # cs \<Rightarrow> if c = CHR ''-'' \<or> c = CHR ''+'' then cs else ?s0 | [] \<Rightarrow> [])"
  let ?r1 = "dropWhile is_digit ?s1"
  let ?fp = "(case ?r1 of c # cs \<Rightarrow> if c = CHR ''.'' then takeWhile is_digit cs else [] | [] \<Rightarrow> [])"
  have s0: "\<not> list_ex is_digit ?s0"
    using assms by (rule no_digit_dropWhile)
  then have s1: "\<not> list_ex is_digit ?s1"
    by (rule no_digit_strip_sign)
  then have ip: "takeWhile is_digit ?s1 = []"
    by (rule takeWhile_no_digit)
  from s1 have "\<not> list_ex is_digit ?r1"
    by (rule no_digit_dropWhile)
  then have fp: "?fp = []"
    by (rule no_digit_fraction)
  show ?thesis
    unfolding parseFloat_def Let_def using ip fp by simp
qed

lemma rowAmount_unmapped: "cm FAmount = - 1 \<Longrightarrow> rowAmount h r cm = 0"
  by (simp add: rowAmount_def)

lemma rowAmount_missing: "row_at r (cm FAmount) = None \<Longrightarrow> rowAmount h r cm = 0"
  by (simp add: rowAmount_def)

lemma rowAmount_no_digit:
  "row_at r (cm FAmount) = Some (Text s) \<Longrightarrow> \<not> list_ex is_digit s \<Longrightarrow> rowAmount h r cm = 0"
  by (simp add: rowAmount_def String_of_def parseFloat_no_digit no_digit_cleaned)

lemma rowAmount_unparseable:
  "row_at r (cm FAmount) = Some v \<Longrightarrow> (\<forall>n. v \<noteq> Number n) \<Longrightarrow>
   parseFloat (cleaned (String_of h v)) = None \<Longrightarrow> rowAmount h r cm = 0"
  by (cases v) (simp_all add: rowAmount_def)

lemma rowType_cases:
  "rowType h r cm amt =
     (if cm FType = - 1 \<or> row_at r (cm FType) = None
      then (if 0 < amt then ''Income'' else ''Expense'')
      else (if str_includes (toLowerCase (String_of h (the (row_at r (cm FType))))) ''income''
               \<or> str_includes (toLowerCase (String_of h (the (row_at r (cm FType))))) ''in''
               \<or> str_includes (toLowerCase (String_of h (the (row_at r (cm FType))))) ''credit''
            then ''Income'' else ''Expense''))"
  by (auto simp: rowType_def Let_def split: option.splits)

lemma rowType_unmapped: "cm FType = - 1 \<Longrightarrow> rowType h r cm amt = (if 0 < amt then ''Income'' else ''Expense'')"
  by (simp add: rowType_def)

text \<open>
  Claim C5. When \<^verbatim>\<open>parseRow\<close> accepts a row, the amount of the record is the absolute
  value of the parsed amount, it is non-negative and it is not zero. Every row whose
  parsed amount is 0 is rejected, and the parsed amount is 0 when no amount column is
  mapped, when the row has no cell in the amount column, when the cell is a text with no
  digit in it (a blank cell among them) and when the text of the cell does not parse.
\<close>

theorem parseRow_amount_positive:
  "(parseRow h r cm = Some t \<longrightarrow>
      0 \<le> amount t \<and> amount t \<noteq> 0 \<and> amount t = \<bar>rowAmount h r cm\<bar>)
   \<and> (rowAmount h r cm = 0 \<longrightarrow> parseRow h r cm = None)
   \<and> (cm FAmount = - 1 \<longrightarrow> rowAmount h r cm = 0)
   \<and> (row_at r (cm FAmount) = None \<longrightarrow> rowAmount h r cm = 0)
   \<and> (row_at r (cm FAmount) = Some (Text s) \<and> \<not> list_ex is_digit s \<longrightarrow> rowAmount h r cm = 0)
   \<and> (row_at r (cm FAmount) = Some v \<and> (\<forall>n. v \<noteq> Number n)
        \<and> parseFloat (cleaned (String_of h v)) = None \<longrightarrow> rowAmount h r cm = 0)"
proof -
  have "parseRow h r cm = Some t \<longrightarrow>
      0 \<le> amount t \<and> amount t \<noteq> 0 \<and> amount t = \<bar>rowAmount h r cm\<bar>"
    using parseRow_Some(1,2) [of h r cm t] by auto
  moreover have "rowAmount h r cm = 0 \<longrightarrow> parseRow h r cm = None"
    by (simp add: parseRow_zero_amount)
  moreover have "cm FAmount = - 1 \<longrightarrow> rowAmount h r cm = 0"
    by (simp add: rowAmount_unmapped)
  moreover have "row_at r (cm FAmount) = None \<longrightarrow> rowAmount h r cm = 0"
    by (simp add: rowAmount_missing)
  moreover have "row_at r (cm FAmount) = Some (Text s) \<and> \<not> list_ex is_digit s \<longrightarrow> rowAmount h r cm = 0"
    using rowAmount_no_digit by blast
  moreover have "row_at r (cm FAmount) = Some v \<and> (\<forall>n. v \<noteq> Number n)
        \<and> parseFloat (cleaned (String_of h v)) = None \<longrightarrow> rowAmount h r cm = 0"
    using rowAmount_unparseable by blast
  ultimately show ?thesis by blast
qed

text \<open>
  A row with amount \<open>-150\<close> is accepted with amount 150; rows with amount 0, with no
  amount column, with no amount cell, with an empty amount cell and with the amount
  \<open>--5\<close> are rejected.
\<close>

theorem parseRow_amount_positive_witness:
  "map_option amount (parseRow utc_host [Some (Text ''2026-01-02''), Some (Number (- 150))]
       (mapColumns [Some ''date'', Some ''amount''])) = Some 150
   \<and> parseRow utc_host [Some (Text ''2026-01-02''), Some (Number 0)]
       (mapColumns [Some ''date'', Some ''amount'']) = None
   \<and> parseRow utc_host [Some (Text ''2026-01-02''), Some (Number 5)]
       (mapColumns [Some ''date'']) = None
   \<and> parseRow utc_host [Some (Text ''2026-01-02'')]
       (mapColumns [Some ''date'', Some ''amount'']) = None
   \<and> parseRow utc_host [Some (Text ''2026-01-02''), Some (Text [])]
       (mapColumns [Some ''date'', Some ''amount'']) = None
   \<and> parseRow utc_host [Some (Text ''2026-01-02''), Some (Text ''--5'')]
       (mapColumns [Some ''date'', Some ''amount'']) = None"
proof -
  let ?cm = "mapColumns [Some ''date'', Some ''amount'']"
  let ?t = "\<lparr> id_t = None, date = Date 1767312000000, description = [],
             category = ''Uncategorized'', amount = 150, type = ''Expense'' \<rparr>"
  have a: "parseRow utc_host [Some (Text ''2026-01-02''), Some (Number (- 150))] ?cm = Some ?t"
    by code_simp
  have "0 \<le> amount ?t \<and> amount ?t \<noteq> 0"
    using parseRow_amount_positive
            [of utc_host "[Some (Text ''2026-01-02''), Some (Number (- 150))]" ?cm ?t] a
    by blast
  with a have 1: "map_option amount (parseRow utc_host [Some (Text ''2026-01-02''), Some (Number (- 150))] ?cm)
                  = Some 150"
    by simp
  have "rowAmount utc_host [Some (Text ''2026-01-02''), Some (Number 0)] ?cm = 0"
    by code_simp
  then have 2: "parseRow utc_host [Some (Text ''2026-01-02''), Some (Number 0)] ?cm = None"
    using parseRow_amount_positive [of utc_host "[Some (Text ''2026-01-02''), Some (Number 0)]" ?cm]
    by blast
  have "mapColumns [Some ''date''] FAmount = - 1"
    by code_simp
  then have 3: "parseRow utc_host [Some (Text ''2026-01-02''), Some (Number 5)] (mapColumns [Some ''date'']) = None"
    using parseRow_amount_positive
            [of utc_host "[Some (Text ''2026-01-02''), Some (Number 5)]" "mapColumns [Some ''date'']"]
    by blast
  have "row_at [Some (Text ''2026-01-02'')] (?cm FAmount) = None"
    by code_simp
  then have 4: "parseRow utc_host [Some (Text ''2026-01-02'')] ?cm = None"
    using parseRow_amount_positive [of utc_host "[Some (Text ''2026-01-02'')]" ?cm]
    by blast
  have "row_at [Some (Text ''2026-01-02''), Some (Text [])] (?cm FAmount) = Some (Text [])
        \<and> \<not> list_ex is_digit []"
    by code_simp
  then have 5: "parseRow utc_host [Some (Text ''2026-01-02''), Some (Text [])] ?cm = None"
    using parseRow_amount_positive
            [of utc_host "[Some (Text ''2026-01-02''), Some (Text [])]" ?cm _ "[]"]
    by blast
  have "row_at [Some (Text ''2026-01-02''), Some (Text ''--5'')] (?cm FAmount) = Some (Text ''--5'')
        \<and> parseFloat (cleaned (String_of utc_host (Text ''--5''))) = None"
    by code_simp
  then have 6: "parseRow utc_host [Some (Text ''2026-01-02''), Some (Text ''--5'')] ?cm = None"
    using parseRow_amount_positive
            [of utc_host "[Some (Text ''2026-01-02''), Some (Text ''--5'')]" ?cm _ _ "Text ''--5''"]
    by blast
  from 1 2 3 4 5 6 show ?thesis by blast
qed

text \<open>
  Claim C2, as the code has it. The type of an accepted row is inferred from the sign of
  the parsed amount (positive gives \<open>Income\<close>, otherwise \<open>Expense\<close>) when no type column
  is mapped and also when a type column is mapped but the row has no cell in it. When
  the type column is mapped and the row has a cell there, the type is \<open>Income\<close> exactly
  when the lower-cased text of the cell contains \<open>income\<close>, \<open>in\<close> or \<open>credit\<close>, and
  \<open>Expense\<close> otherwise.
\<close>

theorem parseRow_type_rule:
  "parseRow h r cm = Some t \<Longrightarrow>
     (cm FType = - 1 \<or> row_at r (cm FType) = None \<longrightarrow>
        type t = (if 0 < rowAmount h r cm then ''Income'' else ''Expense''))
     \<and> (\<forall>v. cm FType \<noteq> - 1 \<and> row_at r (cm FType) = Some v \<longrightarrow>
          type t = (if str_includes (toLowerCase (String_of h v)) ''income''
                       \<or> str_includes (toLowerCase (String_of h v)) ''in''
                       \<or> str_includes (toLowerCase (String_of h v)) ''credit''
                    then ''Income'' else ''Expense''))"
  using parseRow_Some(3) [of h r cm t] by (auto simp: rowType_cases)

text \<open>
  No type column and amount 800: \<open>Income\<close>. A type column but no cell in it and amount
  \<open>-150\<close>: \<open>Expense\<close>. The cell \<open>Credit\<close> with amount \<open>-20\<close>: \<open>Income\<close>. The cell
  \<open>Expense\<close> with amount 800: \<open>Expense\<close>.
\<close>

theorem parseRow_type_rule_witness:
  "map_option type (parseRow utc_host [Some (Text ''2026-01-05''), Some (Number 800)]
       (mapColumns [Some ''date'', Some ''amount''])) = Some ''Income''
   \<and> map_option type (parseRow utc_host [Some (Text ''2026-01-02''), Some (Number (- 150))]
       (mapColumns [Some ''date'', Some ''amount'', Some ''direction''])) = Some ''Expense''
   \<and> map_option type (parseRow utc_host [Some (Text ''2026-01-03''), Some (Number (- 20)), Some (Text ''Credit'')]
       (mapColumns [Some ''date'', Some ''amount'', Some ''direction''])) = Some ''Income''
   \<and> map_option type (parseRow utc_host [Some (Text ''2026-01-04''), Some (Number 800), Some (Text ''Expense'')]
       (mapColumns [Some ''date'', Some ''amount'', Some ''direction''])) = Some ''Expense''"
proof -
  let ?plain = "mapColumns [Some ''date'', Some ''amount'']"
  let ?cm = "mapColumns [Some ''date'', Some ''amount'', Some ''direction'']"
  let ?r1 = "[Some (Text ''2026-01-05''), Some (Number 800)]"
  let ?r2 = "[Some (Text ''2026-01-02''), Some (Number (- 150))]"
  let ?r3 = "[Some (Text ''2026-01-03''), Some (Number (- 20)), Some (Text ''Credit'')]"
  let ?r4 = "[Some (Text ''2026-01-04''), Some (Number 800), Some (Text ''Expense'')]"
  have "parseRow utc_host ?r1 ?plain \<noteq> None"
    by code_simp
  then obtain t1 where t1: "parseRow utc_host ?r1 ?plain = Some t1"
    by blast
  have "?plain FType = - 1" "rowAmount utc_host ?r1 ?plain = 800"
    by code_simp+
  with parseRow_type_rule [OF t1] have "type t1 = ''Income''"
    by simp
  with t1 have 1: "map_option type (parseRow utc_host ?r1 ?plain) = Some ''Income''"
    by simp
  have "parseRow utc_host ?r2 ?cm \<noteq> None"
    by code_simp
  then obtain t2 where t2: "parseRow utc_host ?r2 ?cm = Some t2"
    by blast
  have "row_at ?r2 (?cm FType) = None" "rowAmount utc_host ?r2 ?cm = - 150"
    by code_simp+
  with parseRow_type_rule [OF t2] have "type t2 = ''Expense''"
    by simp
  with t2 have 2: "map_option type (parseRow utc_host ?r2 ?cm) = Some ''Expense''"
    by simp
  have "parseRow utc_host ?r3 ?cm \<noteq> None"
    by code_simp
  then obtain t3 where t3: "parseRow utc_host ?r3 ?cm = Some t3"
    by blast
  have c3: "?cm FType \<noteq> - 1 \<and> row_at ?r3 (?cm FType) = Some (Text ''Credit'')"
    by code_simp
  have s3: "str_includes (toLowerCase (String_of utc_host (Text ''Credit''))) ''credit''"
    by code_simp
  from parseRow_type_rule [OF t3] c3 s3 have "type t3 = ''Income''"
    by simp
  with t3 have 3: "map_option type (parseRow utc_host ?r3 ?cm) = Some ''Income''"
    by simp
  have "parseRow utc_host ?r4 ?cm \<noteq> None"
    by code_simp
  then obtain t4 where t4: "parseRow utc_host ?r4 ?cm = Some t4"
    by blast
  have c4: "?cm FType \<noteq> - 1 \<and> row_at ?r4 (?cm FType) = Some (Text ''Expense'')"
    by code_simp
  have s4: "\<not> str_includes (toLowerCase (String_of utc_host (Text ''Expense''))) ''income''"
    "\<not> str_includes (toLowerCase (String_of utc_host (Text ''Expense''))) ''in''"
    "\<not> str_includes (toLowerCase (String_of utc_host (Text ''Expense''))) ''credit''"
    by code_simp+
  from parseRow_type_rule [OF t4] c4 s4 have "type t4 = ''Expense''"
    by simp
  with t4 have 4: "map_option type (parseRow utc_host ?r4 ?cm) = Some ''Expense''"
    by simp
  from 1 2 3 4 show ?thesis by blast
qed

text \<open>
  Against claim C2 as stated: with the headers \<open>date\<close>, \<open>amount\<close>, \<open>direction\<close> the type
  column is mapped (to column 2). Two rows that both lack a cell in that column get
  their types from the signs of their amounts, 800 and \<open>-150\<close>.
\<close>

theorem parseRow_type_from_sign_despite_type_column_counterexample:
  "mapColumns [Some ''date'', Some ''amount'', Some ''direction''] FType = 2
   \<and> row_at [Some (Text ''2026-01-05''), Some (Number 800)] 2 = None
   \<and> row_at [Some (Text ''2026-01-02''), Some (Number (- 150))] 2 = None
   \<and> map_option type (parseRow utc_host [Some (Text ''2026-01-05''), Some (Number 800)]
        (mapColumns [Some ''date'', Some ''amount'', Some ''direction''])) = Some ''Income''
   \<and> map_option type (parseRow utc_host [Some (Text ''2026-01-02''), Some (Number (- 150))]
        (mapColumns [Some ''date'', Some ''amount'', Some ''direction''])) = Some ''Expense''"
  by code_simp

section \<open>The sample template\<close>

lemma template_header_first: "getSampleTemplateData ! 0 = template_header"
  by (simp add: getSampleTemplateData_def template_header_def)

lemma template_headers:
  "map (map_option (header_text h)) template_header =
     [Some ''date'', Some ''description'', Some ''category'', Some ''amount'', Some ''type'']"
  by (simp add: template_header_def header_text_def falsy_def String_of_def trim_def
        toLowerCase_def lower_char_def is_space_def)

lemma template_columnMap:
  "mapColumns [Some ''date'', Some ''description'', Some ''category'', Some ''amount'', Some ''type''] FDate = 0"
  "mapColumns [Some ''date'', Some ''description'', Some ''category'', Some ''amount'', Some ''type''] FDescription = 1"
  "mapColumns [Some ''date'', Some ''description'', Some ''category'', Some ''amount'', Some ''type''] FCategory = 2"
  "mapColumns [Some ''date'', Some ''description'', Some ''category'', Some ''amount'', Some ''type''] FAmount = 3"
  "mapColumns [Some ''date'', Some ''description'', Some ''category'', Some ''amount'', Some ''type''] FType = - 1"
  by code_simp+

lemma in_set_map_filter: "y \<in> set (List.map_filter f xs) \<longleftrightarrow> (\<exists>x\<in>set xs. f x = Some y)"
  by (induction xs) (auto split: option.splits)

lemma parseDataRow_Some:
  "parseDataRow h cm (i, r) = Some t \<Longrightarrow> \<exists>t0. parseRow h r cm = Some t0 \<and> t = t0\<lparr> id_t := Some i \<rparr>"
  by (auto simp: parseDataRow_def split: if_splits option.splits)

lemma in_transactions:
  assumes "t \<in> set (List.map_filter (parseDataRow h cm) (enumerate 1 rows))"
  shows "\<exists>i t0. 1 \<le> i \<and> i \<le> length rows \<and> parseRow h (rows ! (i - 1)) cm = Some t0
               \<and> t = t0\<lparr> id_t := Some i \<rparr>"
proof -
  from assms obtain i r where ir: "(i, r) \<in> set (enumerate 1 rows)" "parseDataRow h cm (i, r) = Some t"
    by (auto simp: in_set_map_filter)
  from ir(1) have "1 \<le> i" "i \<le> length rows" "rows ! (i - 1) = r"
    by (auto simp: in_set_enumerate_eq)
  with parseDataRow_Some [OF ir(2)] show ?thesis by auto
qed

lemma type_header_matches:
  "\<not> header_matches FDate (Some ''type'')"
  "\<not> header_matches FDescription (Some ''type'')"
  "header_matches FCategory (Some ''type'')"
  "\<not> header_matches FAmount (Some ''type'')"
  "\<not> header_matches FType (Some ''type'')"
  by code_simp+

lemma type_header_only_category: "header_matches f (Some ''type'') = (f = FCategory)"
  by (cases f) (simp_all add: type_header_matches)

text \<open>
  Claim C4. On a sheet whose header row is \<open>Date, Description, Category, Amount, Type\<close>
  the type field stays unmapped (\<open>-1\<close>): the header \<open>type\<close> contains an alias of the
  category field and of no other field, the earlier header \<open>category\<close> already holds
  the category field at column 2, and no header of the row contains an alias of the
  type field. So the mapped columns do not include the type field, and the type of every
  record of the sheet is inferred from the sign of the parsed amount of its row, whatever
  the Type column says.
\<close>

theorem template_type_column_ignored:
  "mapColumns (map (map_option (header_text h)) template_header) FCategory = 2
   \<and> mapColumns (map (map_option (header_text h)) template_header) FType = - 1
   \<and> (\<forall>f. header_matches f (Some ''type'') = (f = FCategory))
   \<and> \<not> list_ex (header_matches FType) (map (map_option (header_text h)) template_header)
   \<and> (parseSheetData h (template_header # rows) = Inr (ts, cols) \<and> t \<in> set ts \<longrightarrow>
        FType \<notin> set cols
        \<and> (\<exists>i. id_t t = Some i \<and> 1 \<le> i \<and> i \<le> length rows
              \<and> type t = (if 0 < rowAmount h (rows ! (i - 1))
                                 (mapColumns (map (map_option (header_text h)) template_header))
                           then ''Income'' else ''Expense'')))"
proof -
  let ?cm = "mapColumns (map (map_option (header_text h)) template_header)"
  have cm: "?cm FCategory = 2" "?cm FType = - 1"
    by (simp_all only: template_headers template_columnMap)
  have m1: "\<forall>f. header_matches f (Some ''type'') = (f = FCategory)"
    by (simp add: type_header_only_category)
  have m2: "\<not> list_ex (header_matches FType) (map (map_option (header_text h)) template_header)"
    unfolding template_headers by code_simp
  have "FType \<notin> set cols \<and>
        (\<exists>i. id_t t = Some i \<and> 1 \<le> i \<and> i \<le> length rows
            \<and> type t = (if 0 < rowAmount h (rows ! (i - 1)) ?cm then ''Income'' else ''Expense''))"
    if sheet: "parseSheetData h (template_header # rows) = Inr (ts, cols)" and t: "t \<in> set ts"
  proof -
    from sheet have ts: "ts = List.map_filter (parseDataRow h ?cm) (enumerate 1 rows)"
      and cols: "cols = filter (\<lambda>k. ?cm k \<noteq> - 1) [FDate, FDescription, FCategory, FAmount, FType]"
      by (simp_all add: parseSheetData_def Let_def)
    from cols cm(2) have "FType \<notin> set cols" by simp
    moreover from t ts obtain i t0 where i: "1 \<le> i" "i \<le> length rows"
        "parseRow h (rows ! (i - 1)) ?cm = Some t0" "t = t0\<lparr> id_t := Some i \<rparr>"
      using in_transactions by blast
    have "type t0 = (if 0 < rowAmount h (rows ! (i - 1)) ?cm then ''Income'' else ''Expense'')"
      using parseRow_Some(3) [OF i(3)] rowType_unmapped [of ?cm, OF cm(2)] by simp
    with i have "\<exists>i. id_t t = Some i \<and> 1 \<le> i \<and> i \<le> length rows
            \<and> type t = (if 0 < rowAmount h (rows ! (i - 1)) ?cm then ''Income'' else ''Expense'')"
      by auto
    ultimately show ?thesis by simp
  qed
  with cm m1 m2 show ?thesis by blast
qed

text \<open>
  A template sheet with one data row, amount 800 and the literal \<open>Expense\<close> in the Type
  column: the record is an \<open>Income\<close>.
\<close>

theorem template_type_column_ignored_witness:
  "parseSheetData utc_host
     [template_header,
      [Some (Text ''2026-01-05''), Some (Text ''Freelance Project''), Some (Text ''Side Income''),
       Some (Number 800), Some (Text ''Expense'')]]
   = Inr ([\<lparr> id_t = Some 1, date = Date 1767571200000, description = ''Freelance Project'',
              category = ''Side Income'', amount = 800, type = ''Income'' \<rparr>],
          [FDate, FDescription, FCategory, FAmount])"
proof -
  let ?r = "[Some (Text ''2026-01-05''), Some (Text ''Freelance Project''), Some (Text ''Side Income''),
             Some (Number 800), Some (Text ''Expense'')]"
  let ?t = "\<lparr> id_t = Some 1, date = Date 1767571200000, description = ''Freelance Project'',
              category = ''Side Income'', amount = 800, type = ''Income'' \<rparr>"
  have e: "parseSheetData utc_host [template_header, ?r] = Inr ([?t], [FDate, FDescription, FCategory, FAmount])"
    by code_simp
  have "FType \<notin> set [FDate, FDescription, FCategory, FAmount]"
    using template_type_column_ignored
            [of utc_host "[?r]" "[?t]" "[FDate, FDescription, FCategory, FAmount]" ?t] e
    by simp
  with e show ?thesis by simp
qed

section \<open>Ingestion failures\<close>

lemma parseExcelFile_too_short:
  "contents f = FirstSheet sheet rawData \<Longrightarrow> length rawData < 2 \<Longrightarrow>
   parseExcelFile h f = Inl ''File appears to be empty or has no data rows''"
  by (simp add: parseExcelFile_def)

lemma parseExcelFile_parsed:
  "contents f = FirstSheet sheet rawData \<Longrightarrow> 2 \<le> length rawData \<Longrightarrow>
   parseSheetData h rawData = Inr (ts, cols) \<Longrightarrow>
   parseExcelFile h f = Inr \<lparr> transactions = ts, fileName = name f, sheetName = sheet,
        totalRows = length rawData - 1, parsedRows = length ts, columns = cols \<rparr>"
  by (simp add: parseExcelFile_def)

lemma parseExcelFile_Inr:
  "contents f = FirstSheet sheet rawData \<Longrightarrow> parseExcelFile h f = Inr res \<Longrightarrow>
   2 \<le> length rawData \<and> (\<exists>cols. parseSheetData h rawData = Inr (transactions res, cols))"
  by (auto simp: parseExcelFile_def split: if_splits sum.splits)

lemma handleFile_loaded:
  "OnFileLoaded res \<in> set (handleFile h f) \<Longrightarrow>
   isValidExcelFile f \<and> parseExcelFile h f = Inr res \<and> transactions res \<noteq> []"
  by (auto simp: handleFile_def split: if_splits sum.splits)

lemma handleFile_one_callback: "length (handleFile h f) = 1"
  by (simp add: handleFile_def split: sum.splits)

text \<open>
  Claim C8. A sheet with fewer than two rows makes \<^verbatim>\<open>parseExcelFile\<close> reject with the
  message \<open>File appears to be empty or has no data rows\<close>, and \<^verbatim>\<open>handleFile\<close> hands
  that message to the error callback. A sheet with data rows of which none is a valid
  transaction makes \<^verbatim>\<open>handleFile\<close> report \<open>No valid transactions found in the file.
  Please check the file format.\<close> The two messages differ. In both cases the error
  callback is the only callback invoked: the success callback receives a result only
  from a sheet with at least two rows and at least one transaction, and
  \<^verbatim>\<open>handleFile\<close> reports exactly once, so nothing is tried again.
\<close>

theorem ingestion_fatal_conditions:
  "(contents f = FirstSheet sheet rawData \<and> length rawData < 2 \<longrightarrow>
      parseExcelFile h f = Inl ''File appears to be empty or has no data rows''
      \<and> (isValidExcelFile f \<longrightarrow>
           handleFile h f = [OnError ''File appears to be empty or has no data rows'']))
   \<and> (contents f = FirstSheet sheet rawData \<and> 2 \<le> length rawData
        \<and> parseSheetData h rawData = Inr ([], cols) \<and> isValidExcelFile f \<longrightarrow>
      handleFile h f =
        [OnError ''No valid transactions found in the file. Please check the file format.''])
   \<and> (contents f = FirstSheet sheet rawData \<and> OnFileLoaded res \<in> set (handleFile h f) \<longrightarrow>
        2 \<le> length rawData \<and> transactions res \<noteq> [])
   \<and> length (handleFile h f) = 1
   \<and> ''File appears to be empty or has no data rows''
        \<noteq> ''No valid transactions found in the file. Please check the file format.''"
proof -
  have a: "contents f = FirstSheet sheet rawData \<and> length rawData < 2 \<longrightarrow>
      parseExcelFile h f = Inl ''File appears to be empty or has no data rows''
      \<and> (isValidExcelFile f \<longrightarrow>
           handleFile h f = [OnError ''File appears to be empty or has no data rows''])"
    by (simp add: handleFile_def parseExcelFile_too_short)
  have b: "contents f = FirstSheet sheet rawData \<and> 2 \<le> length rawData
        \<and> parseSheetData h rawData = Inr ([], cols) \<and> isValidExcelFile f \<longrightarrow>
      handleFile h f =
        [OnError ''No valid transactions found in the file. Please check the file format.'']"
    by (simp add: handleFile_def parseExcelFile_parsed)
  have c: "contents f = FirstSheet sheet rawData \<and> OnFileLoaded res \<in> set (handleFile h f) \<longrightarrow>
        2 \<le> length rawData \<and> transactions res \<noteq> []"
    using handleFile_loaded [of res h f] parseExcelFile_Inr [of f sheet rawData h res] by blast
  have d: "''File appears to be empty or has no data rows''
        \<noteq> ''No valid transactions found in the file. Please check the file format.''"
    by simp
  from a b c d handleFile_one_callback [of h f] show ?thesis by blast
qed

text \<open>
  A spreadsheet file with the template header alone, one with the header and a single
  row of amount 0, and one with a valid row, which alone reaches the success callback.
\<close>

theorem ingestion_fatal_conditions_witness:
  "handleFile utc_host \<lparr> name = ''bank.xlsx'', mime_type = [],
       contents = FirstSheet ''Sheet1'' [template_header] \<rparr>
     = [OnError ''File appears to be empty or has no data rows'']
   \<and> handleFile utc_host \<lparr> name = ''bank.xlsx'', mime_type = [],
       contents = FirstSheet ''Sheet1''
         [template_header,
          [Some (Text ''2026-01-02''), Some (Text ''Grocery Store''), Some (Text ''Food & Dining''),
           Some (Number 0), Some (Text ''Expense'')]] \<rparr>
     = [OnError ''No valid transactions found in the file. Please check the file format.'']
   \<and> handleFile utc_host \<lparr> name = ''bank.xlsx'', mime_type = [],
       contents = FirstSheet ''Sheet1''
         [template_header,
          [Some (Text ''2026-01-02''), Some (Text ''Grocery Store''), Some (Text ''Food & Dining''),
           Some (Number (- 150)), Some (Text ''Expense'')]] \<rparr>
     = [OnFileLoaded \<lparr> transactions =
           [\<lparr> id_t = Some 1, date = Date 1767312000000, description = ''Grocery Store'',
               category = ''Food & Dining'', amount = 150, type = ''Expense'' \<rparr>],
         fileName = ''bank.xlsx'', sheetName = ''Sheet1'', totalRows = 1, parsedRows = 1,
         columns = [FDate, FDescription, FCategory, FAmount] \<rparr>]"
proof -
  let ?f1 = "\<lparr> name = ''bank.xlsx'', mime_type = [],
       contents = FirstSheet ''Sheet1'' [template_header] \<rparr>"
  let ?rows = "[template_header,
          [Some (Text ''2026-01-02''), Some (Text ''Grocery Store''), Some (Text ''Food & Dining''),
           Some (Number 0), Some (Text ''Expense'')]]"
  let ?f2 = "\<lparr> name = ''bank.xlsx'', mime_type = [], contents = FirstSheet ''Sheet1'' ?rows \<rparr>"
  let ?good = "[template_header,
          [Some (Text ''2026-01-02''), Some (Text ''Grocery Store''), Some (Text ''Food & Dining''),
           Some (Number (- 150)), Some (Text ''Expense'')]]"
  let ?f3 = "\<lparr> name = ''bank.xlsx'', mime_type = [], contents = FirstSheet ''Sheet1'' ?good \<rparr>"
  let ?res = "\<lparr> transactions =
           [\<lparr> id_t = Some 1, date = Date 1767312000000, description = ''Grocery Store'',
               category = ''Food & Dining'', amount = 150, type = ''Expense'' \<rparr>],
         fileName = ''bank.xlsx'', sheetName = ''Sheet1'', totalRows = 1, parsedRows = 1,
         columns = [FDate, FDescription, FCategory, FAmount] \<rparr>"
  have v: "isValidExcelFile ?f1" "isValidExcelFile ?f2"
    by code_simp+
  have p: "parseSheetData utc_host ?rows = Inr ([], [FDate, FDescription, FCategory, FAmount])"
    by code_simp
  have 1: "handleFile utc_host ?f1 = [OnError ''File appears to be empty or has no data rows'']"
    using ingestion_fatal_conditions [of ?f1 "''Sheet1''" "[template_header]" utc_host] v(1)
    by simp
  have 2: "handleFile utc_host ?f2
           = [OnError ''No valid transactions found in the file. Please check the file format.'']"
    using ingestion_fatal_conditions
            [of ?f2 "''Sheet1''" ?rows utc_host "[FDate, FDescription, FCategory, FAmount]"] v(2) p
    by simp
  have 3: "handleFile utc_host ?f3 = [OnFileLoaded ?res]"
    by code_simp
  then have "transactions ?res \<noteq> []"
    using ingestion_fatal_conditions [of ?f3 "''Sheet1''" ?good utc_host _ ?res]
    by simp
  with 1 2 3 show ?thesis by blast
qed

section \<open>Filtering with default criteria\<close>

lemma default_stages:
  "searchTransactions ts [] = ts" "filterByCategory ts ''all'' = ts" "filterByType ts ''all'' = ts"
  by (simp_all add: searchTransactions_def filterByCategory_def filterByType_def)

text \<open>
  Claim C10. With an empty search text, category and type \<open>all\<close> (or empty) and neither
  date bound, \<^verbatim>\<open>applyFilters\<close> leaves every record in place: the filtered list is the
  list of all transactions, in the same order. That holds for the initial filter state
  of the application, and each stage alone passes its input through at its default.
\<close>

theorem applyFilters_defaults_identity:
  "(search (activeFilters state) = []
     \<and> (categoryFilter (activeFilters state) = [] \<or> categoryFilter (activeFilters state) = ''all'')
     \<and> (typeFilter (activeFilters state) = [] \<or> typeFilter (activeFilters state) = ''all'')
     \<and> dateFrom (activeFilters state) = [] \<and> dateTo (activeFilters state) = [] \<longrightarrow>
       filteredTransactions (applyFilters h state) = allTransactions state)
   \<and> filteredTransactions (applyFilters h (state\<lparr> activeFilters := initialFilters \<rparr>))
       = allTransactions state
   \<and> searchTransactions ts [] = ts
   \<and> filterByCategory ts ''all'' = ts
   \<and> filterByType ts ''all'' = ts"
  by (auto simp: applyFilters_def Let_def initialFilters_def default_stages)

text \<open>Two records, the later one first: the filtered list keeps both in that order.\<close>

theorem applyFilters_defaults_identity_witness:
  "filteredTransactions (applyFilters utc_host
     \<lparr> allTransactions =
         [\<lparr> id_t = Some 2, date = Date 1767312000000, description = ''Grocery Store'',
             category = ''Food & Dining'', amount = 150, type = ''Expense'' \<rparr>,
          \<lparr> id_t = Some 1, date = Date 1767225600000, description = ''Monthly Salary'',
             category = ''Salary'', amount = 5000, type = ''Income'' \<rparr>],
       filteredTransactions = [],
       activeFilters = initialFilters \<rparr>)
   = [\<lparr> id_t = Some 2, date = Date 1767312000000, description = ''Grocery Store'',
         category = ''Food & Dining'', amount = 150, type = ''Expense'' \<rparr>,
      \<lparr> id_t = Some 1, date = Date 1767225600000, description = ''Monthly Salary'',
         category = ''Salary'', amount = 5000, type = ''Income'' \<rparr>]"
  using applyFilters_defaults_identity
          [of "\<lparr> allTransactions =
         [\<lparr> id_t = Some 2, date = Date 1767312000000, description = ''Grocery Store'',
             category = ''Food & Dining'', amount = 150, type = ''Expense'' \<rparr>,
          \<lparr> id_t = Some 1, date = Date 1767225600000, description = ''Monthly Salary'',
             category = ''Salary'', amount = 5000, type = ''Income'' \<rparr>],
       filteredTransactions = [],
       activeFilters = initialFilters \<rparr>" utc_host]
  by (simp add: initialFilters_def)

section \<open>Totals by month\<close>
























end
